theory Spec2Isabelle
  imports Main
begin

section \<open>Enumerations and constants\<close>

text \<open>
  \<^verbatim>\<open>constants/enums.ts\<close>. The string value of a member is given where the code
  compares or prints it.
\<close>

datatype TokenType = AccessToken | RefreshToken | ForgotPasswordToken | OTPVerify

fun TokenType_value :: "TokenType \<Rightarrow> string" where
  "TokenType_value AccessToken = ''AccessToken''"
| "TokenType_value RefreshToken = ''RefreshToken''"
| "TokenType_value ForgotPasswordToken = ''ForgotPasswordToken''"
| "TokenType_value OTPVerify = ''OTPVerifyToken''"

datatype OtpVerifyType = EmailVerification | PasswordReset

datatype UserVerifyStatus = Unverified | Verified | Celerity | Banned

datatype UserRole = Admin | Instructor | Student | Guest

fun UserRole_value :: "UserRole \<Rightarrow> string" where
  "UserRole_value Admin = ''Admin''"
| "UserRole_value Instructor = ''Instructor''"
| "UserRole_value Student = ''Student''"
| "UserRole_value Guest = ''Guest''"

text \<open>
  \<^verbatim>\<open>constants/httpStatus\<close> is imported by the services but is not among the sources.
  Its members are kept as the names the services use; no numeric value is assumed.
\<close>

datatype HTTP_STATUS =
  OK | BAD_REQUEST | UN_AUTHORIZED | FORBIDDEN | NOT_FOUND | INTERNAL_SERVER_ERROR

text \<open>The entries of \<^verbatim>\<open>constants/message.ts\<close> that the modelled services use.\<close>

definition MESSAGE_AUTH_VALIDATION_TOKEN_MISSING :: string where
  "MESSAGE_AUTH_VALIDATION_TOKEN_MISSING = ''Token is missing''"

definition MESSAGE_AUTH_VALIDATION_TOKEN_INVALID :: string where
  "MESSAGE_AUTH_VALIDATION_TOKEN_INVALID = ''Invalid token''"

definition MESSAGE_AUTH_VALIDATION_USER_ID_MISSING :: string where
  "MESSAGE_AUTH_VALIDATION_USER_ID_MISSING = ''User ID is missing''"

definition MESSAGE_USER_NOT_FOUND :: string where
  "MESSAGE_USER_NOT_FOUND = ''User not found''"

definition MESSAGE_AUTH_PASSWORD_FORGOT_INVALID_OTP :: string where
  "MESSAGE_AUTH_PASSWORD_FORGOT_INVALID_OTP = ''Invalid or expired OTP code''"

definition MESSAGE_VALIDATION_MISMATCH_NEW_PASSWORD_SAME_AS_CURRENT :: string where
  "MESSAGE_VALIDATION_MISMATCH_NEW_PASSWORD_SAME_AS_CURRENT =
     ''New password must be different from current password''"

section \<open>Errors\<close>

text \<open>
  \<^verbatim>\<open>errors/Errors.ts\<close>: an \<^verbatim>\<open>ErrorWithStatus\<close> carries a message and a status (its
  \<^verbatim>\<open>dateTime\<close> stamp is left out). \<^verbatim>\<open>BSONError\<close> is what the driver's
  \<^verbatim>\<open>new ObjectId(s)\<close> throws on a string that is not an id.
\<close>

datatype error = ErrorWithStatus (message: string) (status: HTTP_STATUS) | BSONError string

section \<open>Strings\<close>

text \<open>
  A string is a list of bytes. \<open>toLowerCase\<close> and \<open>trim\<close> are those of JavaScript on
  ASCII text: letters outside \<^verbatim>\<open>A-Z\<close> keep their case, and of the white space only the
  ASCII characters (space, tab, line feed, vertical tab, form feed, carriage return) are
  stripped, not the Unicode white space (U+00A0, U+FEFF and others) that
  \<^verbatim>\<open>String.prototype.trim\<close> strips as well.
\<close>

definition toLowerChar :: "char \<Rightarrow> char" where
  "toLowerChar c =
     (case map_of (zip ''ABCDEFGHIJKLMNOPQRSTUVWXYZ'' ''abcdefghijklmnopqrstuvwxyz'') c of
        None \<Rightarrow> c | Some d \<Rightarrow> d)"

definition toLowerCase :: "string \<Rightarrow> string" where
  "toLowerCase s = map toLowerChar s"

definition isSpace :: "char \<Rightarrow> bool" where
  "isSpace c = (c \<in> set [CHR '' '', CHR 0x09, CHR 0x0A, CHR 0x0B, CHR 0x0C, CHR 0x0D])"

definition trim :: "string \<Rightarrow> string" where
  "trim s = rev (dropWhile isSpace (rev (dropWhile isSpace s)))"

section \<open>Object ids (the driver's ObjectId)\<close>

text \<open>
  An id is kept in its printed form, 24 lower-case hexadecimal digits.
  \<^verbatim>\<open>new ObjectId(s)\<close> accepts a string of 24 hexadecimal digits of either case and
  throws on any other string; \<^verbatim>\<open>toString()\<close> prints the lower-case form. Fresh ids
  (\<^verbatim>\<open>new ObjectId()\<close>, and the \<^verbatim>\<open>_id\<close> the driver adds on insert) are arguments
  of the functions that draw them.
\<close>

datatype ObjectId = ObjectId (toString: string)

definition isHexDigit :: "char \<Rightarrow> bool" where
  "isHexDigit c = (c \<in> set ''0123456789abcdefABCDEF'')"

definition new_ObjectId :: "string \<Rightarrow> ObjectId option" where
  "new_ObjectId s =
     (if length s = 24 \<and> list_all isHexDigit s then Some (ObjectId (toLowerCase s)) else None)"

definition BSONError_message :: string where
  "BSONError_message = ''input must be a 24 character hex string, 12 byte Uint8Array, or an integer''"

section \<open>Signed tokens (the jsonwebtoken library)\<close>

text \<open>
  \<^verbatim>\<open>utils/interface/Jwt.interface.ts\<close>: the base payload with the fields of the
  access payload (\<^verbatim>\<open>email\<close>, \<^verbatim>\<open>roles\<close>) and of the refresh payload
  (\<^verbatim>\<open>tokenId\<close>) as optional fields, since a verified payload is cast, not checked.
  Times are whole seconds.
\<close>

record TokenPayload =
  p_sub :: string
  p_type :: TokenType
  p_iat :: nat
  p_exp :: nat
  p_email :: "string option"
  p_roles :: "string list option"
  p_tokenId :: "string option"

text \<open>
  The library is outside the repository and is modelled symbolically: a token string is
  either a payload signed under a key, or a string that does not parse as a token
  (\<open>Malformed []\<close> is the empty string). \<^verbatim>\<open>jwt.verify\<close> parses, then checks the
  signature, then the expiry (\<^verbatim>\<open>now >= exp\<close> in whole seconds, read from the clock
  in milliseconds); \<^verbatim>\<open>jwt.decode\<close> parses without checking anything. A string that
  does not parse is refused as \<^verbatim>\<open>jwt must be provided\<close> when empty, as
  \<^verbatim>\<open>jwt malformed\<close> when it does not have three parts between dots, and as
  \<^verbatim>\<open>invalid token\<close> when it has three parts that do not decode.
\<close>

datatype jwt = Signed TokenPayload string | Malformed string

datatype jwt_error = TokenExpiredError string | JsonWebTokenError string

definition jwt_sign :: "TokenPayload \<Rightarrow> string \<Rightarrow> jwt" where
  "jwt_sign payload secret = Signed payload secret"

fun jwt_verify :: "jwt \<Rightarrow> string \<Rightarrow> nat \<Rightarrow> jwt_error + TokenPayload" where
  "jwt_verify (Malformed s) secret now =
     Inl (JsonWebTokenError
            (if s = [] then ''jwt must be provided''
             else if length (filter (\<lambda>c. c = CHR ''.'') s) \<noteq> 2 then ''jwt malformed''
             else ''invalid token''))"
| "jwt_verify (Signed payload k) secret now =
     (if k \<noteq> secret then Inl (JsonWebTokenError ''invalid signature'')
      else if p_exp payload \<le> now div 1000 then Inl (TokenExpiredError ''jwt expired'')
      else Inr payload)"

fun jwt_decode :: "jwt \<Rightarrow> TokenPayload option" where
  "jwt_decode (Malformed s) = None"
| "jwt_decode (Signed payload k) = Some payload"

section \<open>Hashing (node's crypto)\<close>

text \<open>
  \<^verbatim>\<open>createHash(alg).update(content).digest('hex')\<close> and
  \<^verbatim>\<open>createHmac(alg, key).update(content).digest('hex')\<close> are parameters: any
  functions will do.
\<close>

record crypto =
  createHash :: "string \<Rightarrow> string \<Rightarrow> string"
  createHmac :: "string \<Rightarrow> string \<Rightarrow> string \<Rightarrow> string"

section \<open>Configuration\<close>

text \<open>
  \<^verbatim>\<open>config/env.config\<close>. The \<^verbatim>\<open>*_EXPIRESIN\<close> entries hold the number that
  \<^verbatim>\<open>parseInt\<close> reads from the configured string.
\<close>

record env =
  ACCESS_TOKEN_PRIVATE_KEY :: string
  REFRESH_TOKEN_PRIVATE_KEY :: string
  FORGOT_PASSWORD_TOKEN_PRIVATE_KEY :: string
  OTP_SECRET :: string
  ACCESS_TOKEN_EXPIRESIN :: nat
  REFRESH_TOKEN_EXPIRESIN :: nat
  FORGOT_PASSWORD_TOKEN_EXPIRESIN :: nat
  HASH_ALGORITHMS :: string
  PASSWORD_SECRET :: string

section \<open>Documents and collections\<close>

text \<open>
  The documents of \<^verbatim>\<open>models/*.schema.ts\<close>, with the fields that decide what the
  modelled services do (time stamps such as \<^verbatim>\<open>last_login\<close> are left out). Field
  names carry a prefix because several documents share names (\<^verbatim>\<open>_id\<close>,
  \<^verbatim>\<open>type\<close>, \<^verbatim>\<open>user_id\<close>, \<^verbatim>\<open>is_removed\<close>). Dates are milliseconds since the
  epoch. A missing \<^verbatim>\<open>roles\<close> or \<^verbatim>\<open>permissions\<close> array is the empty list, which the
  services treat alike; \<^verbatim>\<open>verify\<close> is optional.
\<close>

record Token =
  t_token_id :: string
  t_user_id :: ObjectId
  t_token :: jwt
  t_type :: TokenType
  t_expires_at :: nat
  t_is_removed :: bool

record Otp =
  o_id :: ObjectId
  o_user_id :: ObjectId
  o_code :: string
  o_expired_at :: nat
  o_created_at :: nat
  o_type :: OtpVerifyType
  o_is_used :: bool

record User =
  u_id :: ObjectId
  u_email :: string
  u_password :: string
  u_roles :: "ObjectId list"
  u_verify :: "UserVerifyStatus option"
  u_is_removed :: bool

record Role =
  r_id :: ObjectId
  r_name :: string
  r_is_active :: bool
  r_permissions :: "ObjectId list"

record Permission =
  pm_id :: ObjectId
  pm_name :: string
  pm_action :: string
  pm_subject :: string
  pm_conditions :: "(string \<times> string) list option"

text \<open>
  \<^verbatim>\<open>interfaces/permission.interface.ts\<close>. The \<^verbatim>\<open>permissions\<close> field of a cache
  entry is \<open>permissions_of\<close> here.
\<close>

record CachedPermission =
  cp_id :: string
  cp_name :: string
  cp_action :: string
  cp_subject :: string
  cp_conditions :: "(string \<times> string) list option"

record UserPermissionCache =
  permissions_of :: "CachedPermission list"
  timestamp :: nat

text \<open>
  A collection is the list of its documents in insertion order. \<^verbatim>\<open>findOne\<close> and
  \<^verbatim>\<open>updateOne\<close> act on the first document that matches, \<^verbatim>\<open>updateMany\<close> and
  \<^verbatim>\<open>deleteMany\<close> on all of them. A store operation that the database rejects throws,
  and the call that issued it ends there; such runs are modelled in the one place where
  the source catches the rejection and goes on, the \<^verbatim>\<open>updateOne\<close> of
  \<open>invalidateToken\<close>.
\<close>

definition findOne :: "('a \<Rightarrow> bool) \<Rightarrow> 'a list \<Rightarrow> 'a option" where
  "findOne P xs = find P xs"

definition find_toArray :: "('a \<Rightarrow> bool) \<Rightarrow> 'a list \<Rightarrow> 'a list" where
  "find_toArray P xs = filter P xs"

definition insertOne :: "'a \<Rightarrow> 'a list \<Rightarrow> 'a list" where
  "insertOne x xs = xs @ [x]"

fun updateOne :: "('a \<Rightarrow> bool) \<Rightarrow> ('a \<Rightarrow> 'a) \<Rightarrow> 'a list \<Rightarrow> 'a list" where
  "updateOne P f [] = []"
| "updateOne P f (x # xs) = (if P x then f x # xs else x # updateOne P f xs)"

definition updateMany :: "('a \<Rightarrow> bool) \<Rightarrow> ('a \<Rightarrow> 'a) \<Rightarrow> 'a list \<Rightarrow> 'a list" where
  "updateMany P f xs = map (\<lambda>x. if P x then f x else x) xs"

definition deleteMany :: "('a \<Rightarrow> bool) \<Rightarrow> 'a list \<Rightarrow> 'a list" where
  "deleteMany P xs = filter (\<lambda>x. \<not> P x) xs"

text \<open>
  \<^verbatim>\<open>findOne(filter, { sort: { created_at: -1 } })\<close>: the matching document with the
  greatest \<^verbatim>\<open>created_at\<close>; among equals, the one stored first.
\<close>

fun latest :: "('a \<Rightarrow> nat) \<Rightarrow> 'a \<Rightarrow> 'a list \<Rightarrow> 'a" where
  "latest key best [] = best"
| "latest key best (x # xs) = latest key (if key best < key x then x else best) xs"

definition findOne_sorted_desc :: "('a \<Rightarrow> nat) \<Rightarrow> ('a \<Rightarrow> bool) \<Rightarrow> 'a list \<Rightarrow> 'a option" where
  "findOne_sorted_desc key P xs =
     (case filter P xs of [] \<Rightarrow> None | y # ys \<Rightarrow> Some (latest key y ys))"

text \<open>
  The state of one server process with its database: the collections behind
  \<^verbatim>\<open>databaseServices\<close>, and the two module-level variables \<^verbatim>\<open>tokenBlacklist\<close>
  (token.service.ts) and \<^verbatim>\<open>permissionCache\<close> (permission.service.ts). A fresh
  process starts with both of the latter empty, on the same collections.
\<close>

record state =
  users :: "User list"
  roles :: "Role list"
  permissions :: "Permission list"
  otps :: "Otp list"
  tokens :: "Token list"
  tokenBlacklist :: "jwt set"
  permissionCache :: "string \<rightharpoonup> UserPermissionCache"

text \<open>
  A call that may throw returns what it threw (\<open>Inl\<close>) or its value (\<open>Inr\<close>),
  together with the state it leaves: what was written before a throw stays written.
\<close>

type_synonym 'a outcome = "(error + 'a) \<times> state"

section \<open>services/token.service.ts\<close>

record TokenValidationResult =
  valid :: bool
  expired :: bool
  payload :: "TokenPayload option"
  error :: "string option"

definition invalidToken :: "string \<Rightarrow> TokenValidationResult" where
  "invalidToken err = \<lparr>valid = False, expired = False, payload = None, error = Some err\<rparr>"

fun TOKEN_SECRET_MAP :: "env \<Rightarrow> TokenType \<Rightarrow> string" where
  "TOKEN_SECRET_MAP e AccessToken = ACCESS_TOKEN_PRIVATE_KEY e"
| "TOKEN_SECRET_MAP e RefreshToken = REFRESH_TOKEN_PRIVATE_KEY e"
| "TOKEN_SECRET_MAP e ForgotPasswordToken = FORGOT_PASSWORD_TOKEN_PRIVATE_KEY e"
| "TOKEN_SECRET_MAP e OTPVerify = OTP_SECRET e"

text \<open>\<open>now\<close> is \<^verbatim>\<open>Date.now()\<close>, in milliseconds.\<close>

definition generateAccessToken :: "env \<Rightarrow> string \<Rightarrow> string \<Rightarrow> ObjectId list \<Rightarrow> nat \<Rightarrow> jwt" where
  "generateAccessToken e userId email rolesArg now =
     (let roleIds = map toString rolesArg;
          payload = \<lparr>p_sub = userId, p_type = AccessToken,
                     p_iat = now div 1000,
                     p_exp = now div 1000 + ACCESS_TOKEN_EXPIRESIN e,
                     p_email = Some email, p_roles = Some roleIds, p_tokenId = None\<rparr>
      in jwt_sign payload (ACCESS_TOKEN_PRIVATE_KEY e))"

text \<open>
  \<open>tokenId\<close> is the printed fresh id \<^verbatim>\<open>new ObjectId().toString()\<close>. The stored row
  gets \<^verbatim>\<open>is_removed = false\<close> from the \<^verbatim>\<open>Token\<close> constructor.
\<close>

definition generateRefreshToken ::
  "env \<Rightarrow> state \<Rightarrow> string \<Rightarrow> string \<Rightarrow> nat \<Rightarrow> (jwt \<times> string) outcome" where
  "generateRefreshToken e s userId tokenId now =
     (let payload = \<lparr>p_sub = userId, p_type = RefreshToken,
                     p_iat = now div 1000,
                     p_exp = now div 1000 + REFRESH_TOKEN_EXPIRESIN e,
                     p_email = None, p_roles = None, p_tokenId = Some tokenId\<rparr>;
          tok = jwt_sign payload (REFRESH_TOKEN_PRIVATE_KEY e)
      in case new_ObjectId userId of
           None \<Rightarrow> (Inl (BSONError BSONError_message), s)
         | Some uid \<Rightarrow>
             (let newToken = \<lparr>t_token_id = tokenId, t_user_id = uid, t_token = tok,
                              t_type = RefreshToken, t_expires_at = p_exp payload * 1000,
                              t_is_removed = False\<rparr>
              in (Inr (tok, tokenId), s\<lparr>tokens := insertOne newToken (tokens s)\<rparr>)))"

definition refreshTokenFilter :: "string \<Rightarrow> ObjectId \<Rightarrow> Token \<Rightarrow> bool" where
  "refreshTokenFilter tokenId uid d =
     (t_token_id d = tokenId \<and> t_user_id d = uid \<and> t_type d = RefreshToken)"

text \<open>
  The whole body runs inside \<^verbatim>\<open>try\<close>: what \<^verbatim>\<open>jwt.verify\<close> or
  \<^verbatim>\<open>new ObjectId\<close> throws ends in the \<^verbatim>\<open>catch\<close> branch, which answers through
  \<open>invalidToken\<close> as every other failure does.
\<close>

definition validateToken :: "env \<Rightarrow> state \<Rightarrow> jwt \<Rightarrow> TokenType \<Rightarrow> nat \<Rightarrow> TokenValidationResult" where
  "validateToken e s tok expectedType now =
     (if tok \<in> tokenBlacklist s then invalidToken ''Token has been invalidated''
      else
        let secret = TOKEN_SECRET_MAP e expectedType in
        if secret = [] then invalidToken ''Unsupported token type''
        else
          case jwt_verify tok secret now of
            Inl (TokenExpiredError m) \<Rightarrow> invalidToken ''Token has expired''
          | Inl (JsonWebTokenError m) \<Rightarrow> invalidToken (if m = [] then ''Invalid token'' else m)
          | Inr pl \<Rightarrow>
              if p_type pl \<noteq> expectedType then
                invalidToken (''Invalid token type. Expected '' @ [CHR 0x27] @ TokenType_value expectedType
                              @ [CHR 0x27] @ '', got '' @ [CHR 0x27] @ TokenType_value (p_type pl) @ [CHR 0x27])
              else if expectedType = RefreshToken then
                (case p_tokenId pl of
                   None \<Rightarrow> invalidToken ''Malformed refresh token payload''
                 | Some tokenId \<Rightarrow>
                     if tokenId = [] \<or> p_sub pl = [] then
                       invalidToken ''Malformed refresh token payload''
                     else
                       (case new_ObjectId (p_sub pl) of
                          None \<Rightarrow> invalidToken BSONError_message
                        | Some uid \<Rightarrow>
                            (case findOne (\<lambda>d. refreshTokenFilter tokenId uid d
                                                \<and> t_is_removed d \<noteq> True) (tokens s) of
                               None \<Rightarrow> invalidToken ''Token has been revoked or does not exist''
                             | Some tokenDoc \<Rightarrow>
                                 \<lparr>valid = True, expired = False, payload = Some pl, error = None\<rparr>)))
              else \<lparr>valid = True, expired = False, payload = Some pl, error = None\<rparr>)"

text \<open>
  The token enters the blacklist first. The row update runs inside \<^verbatim>\<open>try\<close>: what
  \<^verbatim>\<open>new ObjectId\<close> throws, and a rejection of \<^verbatim>\<open>updateOne\<close> by the database, are
  caught and logged, and the call returns normally with the token in the blacklist only.
  \<open>updateAccepted\<close> says whether the database accepts the update.
\<close>

definition invalidateToken :: "state \<Rightarrow> jwt \<Rightarrow> bool \<Rightarrow> state" where
  "invalidateToken s tok updateAccepted =
     (let s1 = s\<lparr>tokenBlacklist := insert tok (tokenBlacklist s)\<rparr> in
      case jwt_decode tok of
        None \<Rightarrow> s1
      | Some pl \<Rightarrow>
          (case p_tokenId pl of
             None \<Rightarrow> s1
           | Some tokenId \<Rightarrow>
               if tokenId \<noteq> [] \<and> p_sub pl \<noteq> [] \<and> p_type pl = RefreshToken then
                 (case new_ObjectId (p_sub pl) of
                    None \<Rightarrow> s1
                  | Some uid \<Rightarrow>
                      if updateAccepted then
                        s1\<lparr>tokens := updateOne (refreshTokenFilter tokenId uid)
                                               (\<lambda>d. d\<lparr>t_is_removed := True\<rparr>) (tokens s1)\<rparr>
                      else s1)
               else s1))"

definition invalidateAllUserRefreshTokens :: "state \<Rightarrow> string \<Rightarrow> unit outcome" where
  "invalidateAllUserRefreshTokens s userId =
     (case new_ObjectId userId of
        None \<Rightarrow> (Inl (BSONError BSONError_message), s)
      | Some uid \<Rightarrow>
          (Inr (), s\<lparr>tokens := updateMany (\<lambda>d. t_user_id d = uid \<and> t_type d = RefreshToken)
                                         (\<lambda>d. d\<lparr>t_is_removed := True\<rparr>) (tokens s)\<rparr>))"

definition cleanupExpiredTokens :: "state \<Rightarrow> nat \<Rightarrow> nat \<times> state" where
  "cleanupExpiredTokens s now =
     (let expiredDocs = (\<lambda>d. t_expires_at d < now)
      in (length (filter expiredDocs (tokens s)),
          s\<lparr>tokens := deleteMany expiredDocs (tokens s)\<rparr>))"

section \<open>utils/crypto.ts and utils/otp.ts\<close>

definition initialHashPassword :: "crypto \<Rightarrow> env \<Rightarrow> string \<Rightarrow> string" where
  "initialHashPassword C e content = createHash C (HASH_ALGORITHMS e) content"

definition hashPassword :: "crypto \<Rightarrow> env \<Rightarrow> string \<Rightarrow> string" where
  "hashPassword C e password = initialHashPassword C e (password @ PASSWORD_SECRET e)"

definition comparePassword :: "crypto \<Rightarrow> env \<Rightarrow> string \<Rightarrow> string \<Rightarrow> bool" where
  "comparePassword C e plainPassword hashedPassword =
     (let hashedPlainPassword = hashPassword C e plainPassword
      in hashedPlainPassword = hashedPassword)"

definition encryptOTP :: "crypto \<Rightarrow> env \<Rightarrow> string \<Rightarrow> string" where
  "encryptOTP C e otp = createHmac C ''sha256'' (PASSWORD_SECRET e) otp"

text \<open>\<^verbatim>\<open>verifyOTP\<close> of utils/otp.ts (the service has a function of the same name).\<close>

definition otp_verifyOTP :: "crypto \<Rightarrow> env \<Rightarrow> string \<Rightarrow> string \<Rightarrow> bool" where
  "otp_verifyOTP C e plainOtp encryptedOtp =
     (let encryptedPlainOtp = encryptOTP C e plainOtp
      in encryptedPlainOtp = encryptedOtp)"

text \<open>
  \<^verbatim>\<open>createOTPExpiration\<close> adds 15 to the minutes of the local time
  (\<^verbatim>\<open>setMinutes\<close>). That is 15 minutes later, as here, unless the local clock is set
  back or forward within that quarter of an hour.
\<close>

definition createOTPExpiration :: "nat \<Rightarrow> nat" where
  "createOTPExpiration now = now + 15 * 60 * 1000"

section \<open>services/auth.service.ts\<close>

text \<open>
  In the functions below \<open>plainOtp\<close> is the code that \<^verbatim>\<open>generateOTP()\<close> drew,
  \<open>now\<close> the clock, and \<open>newId\<close> the \<^verbatim>\<open>_id\<close> the stored document receives.
  Sending the e-mail is left out. It is the last step of \<open>generateAndSendOTP\<close>,
  \<open>forgotPassword\<close> and \<open>resendOTP\<close> and does not touch the collections: when the send
  fails the source rethrows after the writes, where the functions here return normally,
  with the same documents stored.
\<close>

definition generateAndSendOTP ::
  "crypto \<Rightarrow> env \<Rightarrow> state \<Rightarrow> string \<Rightarrow> string \<Rightarrow> OtpVerifyType \<Rightarrow> string \<Rightarrow> nat \<Rightarrow> ObjectId
     \<Rightarrow> unit outcome" where
  "generateAndSendOTP C e s userId email type plainOtp now newId =
     (let encryptedOtp = encryptOTP C e plainOtp;
          otpExpiration = createOTPExpiration now
      in case new_ObjectId userId of
           None \<Rightarrow> (Inl (BSONError BSONError_message), s)
         | Some uid \<Rightarrow>
             (let remaining = deleteMany (\<lambda>d. o_user_id d = uid) (otps s);
                  otpDoc = \<lparr>o_id = newId, o_user_id = uid, o_code = encryptedOtp,
                            o_expired_at = otpExpiration, o_created_at = now,
                            o_type = type, o_is_used = False\<rparr>
              in (Inr (), s\<lparr>otps := insertOne otpDoc remaining\<rparr>)))"

definition forgotPassword ::
  "crypto \<Rightarrow> env \<Rightarrow> state \<Rightarrow> string \<Rightarrow> string \<Rightarrow> nat \<Rightarrow> ObjectId \<Rightarrow> unit outcome" where
  "forgotPassword C e s email plainOtp now newId =
     (let normalizedEmail = toLowerCase (trim email) in
      case findOne (\<lambda>u. u_email u = normalizedEmail) (users s) of
        None \<Rightarrow> (Inl (ErrorWithStatus MESSAGE_USER_NOT_FOUND NOT_FOUND), s)
      | Some user \<Rightarrow>
          (let encryptedOtp = encryptOTP C e plainOtp;
               otpExpiration = createOTPExpiration now;
               remaining = deleteMany (\<lambda>d. o_user_id d = u_id user \<and> o_type d = PasswordReset) (otps s);
               otpDoc = \<lparr>o_id = newId, o_user_id = u_id user, o_code = encryptedOtp,
                         o_expired_at = otpExpiration, o_created_at = now,
                         o_type = PasswordReset, o_is_used = False\<rparr>
           in (Inr (), s\<lparr>otps := insertOne otpDoc remaining\<rparr>)))"

definition verifyPasswordResetOTP ::
  "crypto \<Rightarrow> env \<Rightarrow> state \<Rightarrow> string \<Rightarrow> string \<Rightarrow> nat \<Rightarrow> (string \<times> string) outcome" where
  "verifyPasswordResetOTP C e s otp email now =
     (let normalizedEmail = toLowerCase (trim email) in
      case findOne (\<lambda>u. u_email u = normalizedEmail) (users s) of
        None \<Rightarrow> (Inl (ErrorWithStatus MESSAGE_USER_NOT_FOUND NOT_FOUND), s)
      | Some user \<Rightarrow>
          (case findOne_sorted_desc o_created_at
                  (\<lambda>d. o_user_id d = u_id user \<and> o_type d = PasswordReset \<and> now < o_expired_at d)
                  (otps s) of
             None \<Rightarrow> (Inl (ErrorWithStatus MESSAGE_AUTH_PASSWORD_FORGOT_INVALID_OTP BAD_REQUEST), s)
           | Some otpRecord \<Rightarrow>
               if \<not> otp_verifyOTP C e otp (o_code otpRecord) then
                 (Inl (ErrorWithStatus MESSAGE_AUTH_PASSWORD_FORGOT_INVALID_OTP BAD_REQUEST), s)
               else
                 (Inr (toString (u_id user), u_email user),
                  s\<lparr>otps := updateOne (\<lambda>d. o_id d = o_id otpRecord)
                                      (\<lambda>d. d\<lparr>o_is_used := True\<rparr>) (otps s)\<rparr>)))"

definition resetPassword ::
  "crypto \<Rightarrow> env \<Rightarrow> state \<Rightarrow> string \<Rightarrow> string \<Rightarrow> bool outcome" where
  "resetPassword C e s email password =
     (case findOne (\<lambda>u. u_email u = email) (users s) of
        None \<Rightarrow> (Inl (ErrorWithStatus MESSAGE_USER_NOT_FOUND NOT_FOUND), s)
      | Some user \<Rightarrow>
          if comparePassword C e password (u_password user) then
            (Inl (ErrorWithStatus MESSAGE_VALIDATION_MISMATCH_NEW_PASSWORD_SAME_AS_CURRENT BAD_REQUEST), s)
          else
            (let hashedPassword = hashPassword C e password;
                 s1 = s\<lparr>users := updateOne (\<lambda>u. u_email u = email)
                                           (\<lambda>u. u\<lparr>u_password := hashedPassword\<rparr>) (users s)\<rparr>
             in case invalidateAllUserRefreshTokens s1 (toString (u_id user)) of
                  (Inl err, s2) \<Rightarrow> (Inl err, s2)
                | (Inr u, s2) \<Rightarrow>
                    (case new_ObjectId (toString (u_id user)) of
                       None \<Rightarrow> (Inl (BSONError BSONError_message), s2)
                     | Some uid \<Rightarrow>
                         (Inr True,
                          s2\<lparr>otps := deleteMany (\<lambda>d. o_user_id d = uid \<and> o_type d = PasswordReset
                                                       \<and> o_is_used d = True) (otps s2)\<rparr>))))"

text \<open>\<^verbatim>\<open>authService.verifyOTP\<close>, the e-mail verification.\<close>

definition verifyOTP ::
  "crypto \<Rightarrow> env \<Rightarrow> state \<Rightarrow> string \<Rightarrow> string \<Rightarrow> nat \<Rightarrow> bool outcome" where
  "verifyOTP C e s otp email now =
     (let normalizedEmail = toLowerCase (trim email) in
      case findOne (\<lambda>u. u_email u = normalizedEmail) (users s) of
        None \<Rightarrow> (Inl (ErrorWithStatus MESSAGE_USER_NOT_FOUND NOT_FOUND), s)
      | Some user \<Rightarrow>
          if u_verify user = Some Verified then
            (Inl (ErrorWithStatus MESSAGE_AUTH_PASSWORD_FORGOT_INVALID_OTP BAD_REQUEST), s)
          else
            (case findOne_sorted_desc o_created_at
                    (\<lambda>d. o_user_id d = u_id user \<and> o_type d = EmailVerification
                          \<and> now < o_expired_at d \<and> o_is_used d \<noteq> True)
                    (otps s) of
               None \<Rightarrow> (Inl (ErrorWithStatus MESSAGE_AUTH_PASSWORD_FORGOT_INVALID_OTP BAD_REQUEST), s)
             | Some otpRecord \<Rightarrow>
                 if \<not> otp_verifyOTP C e otp (o_code otpRecord) then
                   (Inl (ErrorWithStatus MESSAGE_AUTH_PASSWORD_FORGOT_INVALID_OTP BAD_REQUEST), s)
                 else
                   (Inr True,
                    s\<lparr>otps := updateOne (\<lambda>d. o_id d = o_id otpRecord)
                                        (\<lambda>d. d\<lparr>o_is_used := True\<rparr>) (otps s),
                      users := updateOne (\<lambda>u. u_id u = u_id user)
                                         (\<lambda>u. u\<lparr>u_verify := Some Verified\<rparr>) (users s)\<rparr>)))"

text \<open>
  The request validator lets \<^verbatim>\<open>type\<close> be absent; the \<^verbatim>\<open>Otp\<close> constructor then
  stores \<^verbatim>\<open>EmailVerification\<close>, and \<^verbatim>\<open>created_at\<close> defaults to the clock.
\<close>

definition resendOTP ::
  "crypto \<Rightarrow> env \<Rightarrow> state \<Rightarrow> string \<Rightarrow> OtpVerifyType option \<Rightarrow> string \<Rightarrow> nat \<Rightarrow> ObjectId
     \<Rightarrow> unit outcome" where
  "resendOTP C e s email type plainOtp now newId =
     (let normalizedEmail = toLowerCase (trim email) in
      case findOne (\<lambda>u. u_email u = normalizedEmail) (users s) of
        None \<Rightarrow> (Inl (ErrorWithStatus MESSAGE_USER_NOT_FOUND NOT_FOUND), s)
      | Some user \<Rightarrow>
          (let encryptedOtp = encryptOTP C e plainOtp;
               otpExpiration = createOTPExpiration now;
               otpDoc = \<lparr>o_id = newId, o_user_id = u_id user, o_code = encryptedOtp,
                         o_expired_at = otpExpiration, o_created_at = now,
                         o_type = (case type of None \<Rightarrow> EmailVerification | Some t \<Rightarrow> t),
                         o_is_used = False\<rparr>
           in (Inr (), s\<lparr>otps := insertOne otpDoc (otps s)\<rparr>)))"

text \<open>
  \<open>newTokenId\<close> is the id drawn for the new refresh token, and \<open>updateAccepted\<close>
  says whether the database accepts the row update of \<open>invalidateToken\<close>. An exception
  that is not an \<^verbatim>\<open>ErrorWithStatus\<close> leaves the \<^verbatim>\<open>catch\<close> block as the invalid-token
  error.
\<close>

definition reissueToken_catch :: "error \<Rightarrow> error" where
  "reissueToken_catch err =
     (case err of
        ErrorWithStatus m st \<Rightarrow> err
      | BSONError m \<Rightarrow> ErrorWithStatus MESSAGE_AUTH_VALIDATION_TOKEN_INVALID UN_AUTHORIZED)"

definition reissueToken ::
  "env \<Rightarrow> state \<Rightarrow> jwt \<Rightarrow> nat \<Rightarrow> string \<Rightarrow> bool \<Rightarrow> (jwt \<times> jwt) outcome" where
  "reissueToken e s refreshToken now newTokenId updateAccepted =
     (if refreshToken = Malformed [] then
        (Inl (ErrorWithStatus MESSAGE_AUTH_VALIDATION_TOKEN_MISSING BAD_REQUEST), s)
      else
        let validationResult = validateToken e s refreshToken RefreshToken now in
        if \<not> valid validationResult then
          (Inl (ErrorWithStatus
                  (case error validationResult of
                     None \<Rightarrow> MESSAGE_AUTH_VALIDATION_TOKEN_INVALID
                   | Some m \<Rightarrow> if m = [] then MESSAGE_AUTH_VALIDATION_TOKEN_INVALID else m)
                  UN_AUTHORIZED), s)
        else
          case payload validationResult of
            None \<Rightarrow> (Inl (ErrorWithStatus MESSAGE_AUTH_VALIDATION_USER_ID_MISSING UN_AUTHORIZED), s)
          | Some pl \<Rightarrow>
              let userId = p_sub pl in
              if userId = [] then
                (Inl (ErrorWithStatus MESSAGE_AUTH_VALIDATION_USER_ID_MISSING UN_AUTHORIZED), s)
              else
                (case new_ObjectId userId of
                   None \<Rightarrow> (Inl (reissueToken_catch (BSONError BSONError_message)), s)
                 | Some uid \<Rightarrow>
                     (case findOne (\<lambda>u. u_id u = uid \<and> u_is_removed u = False) (users s) of
                        None \<Rightarrow> (Inl (ErrorWithStatus MESSAGE_USER_NOT_FOUND NOT_FOUND), s)
                      | Some user \<Rightarrow>
                          (let s1 = invalidateToken s refreshToken updateAccepted;
                               accessToken = generateAccessToken e userId (u_email user) (u_roles user) now
                           in case generateRefreshToken e s1 userId newTokenId now of
                                (Inl err, s2) \<Rightarrow> (Inl (reissueToken_catch err), s2)
                              | (Inr (newRefreshToken, tid), s2) \<Rightarrow>
                                  (Inr (accessToken, newRefreshToken), s2)))))"

section \<open>controllers/auth.controller.ts\<close>

text \<open>
  \<^verbatim>\<open>authController.validateToken\<close>, the handler of \<^verbatim>\<open>POST /validate-token\<close>: the
  status and the message of its response (\<^verbatim>\<open>ResponseMessage\<close> sets the status of the
  same name). \<open>token_type\<close> is the request's \<^verbatim>\<open>token_type\<close> string.
\<close>

definition validateToken_controller ::
  "env \<Rightarrow> state \<Rightarrow> jwt \<Rightarrow> string \<Rightarrow> nat \<Rightarrow> error + (HTTP_STATUS \<times> string)" where
  "validateToken_controller e s tok token_type now =
     (if tok = Malformed [] then
        Inl (ErrorWithStatus MESSAGE_AUTH_VALIDATION_TOKEN_MISSING BAD_REQUEST)
      else
        let tokenType = (if token_type = ''refresh_token'' then RefreshToken else AccessToken);
            validationResult = validateToken e s tok tokenType now
        in if \<not> valid validationResult then
             (let status = (if expired validationResult then UN_AUTHORIZED else BAD_REQUEST);
                  msg = (case error validationResult of
                           None \<Rightarrow> MESSAGE_AUTH_VALIDATION_TOKEN_INVALID
                         | Some m \<Rightarrow> if m = [] then MESSAGE_AUTH_VALIDATION_TOKEN_INVALID else m)
              in if status = UN_AUTHORIZED then Inr (UN_AUTHORIZED, msg)
                 else Inr (BAD_REQUEST, msg))
           else Inr (OK, ''Token is valid''))"

section \<open>services/permission.service.ts\<close>

definition CACHE_TTL :: int where
  "CACHE_TTL = 5 * 60 * 1000"

definition toCachedPermission :: "Permission \<Rightarrow> CachedPermission" where
  "toCachedPermission p =
     \<lparr>cp_id = toString (pm_id p), cp_name = pm_name p, cp_action = pm_action p,
      cp_subject = pm_subject p, cp_conditions = pm_conditions p\<rparr>"

definition getUserPermissionsFromDB :: "state \<Rightarrow> string \<Rightarrow> error + CachedPermission list" where
  "getUserPermissionsFromDB s userId =
     (case new_ObjectId userId of
        None \<Rightarrow> Inl (BSONError BSONError_message)
      | Some uid \<Rightarrow>
          (case findOne (\<lambda>u. u_id u = uid) (users s) of
             None \<Rightarrow> Inr []
           | Some user \<Rightarrow>
               if u_roles user = [] then Inr []
               else
                 let userRoles = find_toArray (\<lambda>r. r_id r \<in> set (u_roles user) \<and> r_is_active r = True)
                                              (roles s) in
                 if userRoles = [] then Inr []
                 else
                   let isAdmin = list_ex (\<lambda>role. r_name role = UserRole_value Admin) userRoles in
                   if isAdmin then
                     (let allPermissions = find_toArray (\<lambda>p. True) (permissions s)
                      in Inr (map toCachedPermission allPermissions))
                   else
                     let permissionIds =
                           foldl (\<lambda>ids role. if r_permissions role \<noteq> [] then ids @ r_permissions role
                                              else ids) [] userRoles in
                     if permissionIds = [] then Inr []
                     else
                       let perms = find_toArray (\<lambda>p. pm_id p \<in> set permissionIds) (permissions s)
                       in Inr (map toCachedPermission perms)))"

text \<open>\<open>now\<close> is \<^verbatim>\<open>Date.now()\<close>; a fetched list is cached under the id as given.\<close>

definition getUserPermissions :: "state \<Rightarrow> string \<Rightarrow> nat \<Rightarrow> CachedPermission list outcome" where
  "getUserPermissions s userId now =
     (case permissionCache s userId of
        Some cachedData \<Rightarrow>
          if int now - int (timestamp cachedData) < CACHE_TTL then
            (Inr (permissions_of cachedData), s)
          else
            (case getUserPermissionsFromDB s userId of
               Inl err \<Rightarrow> (Inl err, s)
             | Inr perms \<Rightarrow>
                 (Inr perms,
                  s\<lparr>permissionCache := (permissionCache s)(userId \<mapsto>
                       \<lparr>permissions_of = perms, timestamp = now\<rparr>)\<rparr>))
      | None \<Rightarrow>
          (case getUserPermissionsFromDB s userId of
             Inl err \<Rightarrow> (Inl err, s)
           | Inr perms \<Rightarrow>
               (Inr perms,
                s\<lparr>permissionCache := (permissionCache s)(userId \<mapsto>
                     \<lparr>permissions_of = perms, timestamp = now\<rparr>)\<rparr>)))"

section \<open>Notions used to state the properties\<close>

text \<open>
  The calls of token.service.ts that write to the token collection. Every other service
  reaches the collection through them. A call that throws leaves the state it had reached.
\<close>

datatype token_call =
    GenerateRefreshToken string string nat
  | InvalidateToken jwt bool
  | InvalidateAllUserRefreshTokens string
  | CleanupExpiredTokens nat

fun token_call_step :: "env \<Rightarrow> state \<Rightarrow> token_call \<Rightarrow> state" where
  "token_call_step e s (GenerateRefreshToken userId tokenId now) =
     snd (generateRefreshToken e s userId tokenId now)"
| "token_call_step e s (InvalidateToken tok updateAccepted) = invalidateToken s tok updateAccepted"
| "token_call_step e s (InvalidateAllUserRefreshTokens userId) =
     snd (invalidateAllUserRefreshTokens s userId)"
| "token_call_step e s (CleanupExpiredTokens now) = snd (cleanupExpiredTokens s now)"

definition token_calls :: "env \<Rightarrow> state \<Rightarrow> token_call list \<Rightarrow> state" where
  "token_calls e s cs = foldl (token_call_step e) s cs"

text \<open>
  Each \<open>GenerateRefreshToken\<close> in a run of calls draws an id that no stored row has
  at that moment.
\<close>

fun draws_fresh_ids :: "env \<Rightarrow> state \<Rightarrow> token_call list \<Rightarrow> bool" where
  "draws_fresh_ids e s [] = True"
| "draws_fresh_ids e s (c # cs) =
     ((case c of
         GenerateRefreshToken userId tokenId now \<Rightarrow> tokenId \<notin> set (map t_token_id (tokens s))
       | InvalidateToken tok updateAccepted \<Rightarrow> True
       | InvalidateAllUserRefreshTokens userId \<Rightarrow> True
       | CleanupExpiredTokens now \<Rightarrow> True)
      \<and> draws_fresh_ids e (token_call_step e s c) cs)"

text \<open>The token id a token string carries, if it parses and has one.\<close>

definition tokenId_of :: "jwt \<Rightarrow> string option" where
  "tokenId_of tok = (case jwt_decode tok of None \<Rightarrow> None | Some pl \<Rightarrow> p_tokenId pl)"

text \<open>A later call draws a fresh id, so never the id of an existing token.\<close>

fun draws_other_id :: "jwt \<Rightarrow> token_call \<Rightarrow> bool" where
  "draws_other_id tok (GenerateRefreshToken userId tokenId now) = (tokenId_of tok \<noteq> Some tokenId)"
| "draws_other_id tok c = True"

text \<open>The token belongs to the user: its subject parses to the same id as \<open>userId\<close>.\<close>

definition token_of_user :: "jwt \<Rightarrow> string \<Rightarrow> bool" where
  "token_of_user tok userId =
     (case jwt_decode tok of
        None \<Rightarrow> True
      | Some pl \<Rightarrow> new_ObjectId (p_sub pl) = new_ObjectId userId)"

text \<open>
  The state \<open>s1\<close> results from revoking the token in \<open>s0\<close>: by \<open>invalidateToken\<close>
  with its row update accepted, in a collection whose token ids are unique, or by
  \<open>invalidateAllUserRefreshTokens\<close> for the user the token belongs to.
\<close>

datatype revocation = ByInvalidateToken | ByInvalidateAll string

fun revoked_in :: "state \<Rightarrow> jwt \<Rightarrow> revocation \<Rightarrow> state \<Rightarrow> bool" where
  "revoked_in s0 tok ByInvalidateToken s1 =
     (distinct (map t_token_id (tokens s0)) \<and> s1 = invalidateToken s0 tok True)"
| "revoked_in s0 tok (ByInvalidateAll userId) s1 =
     (token_of_user tok userId \<and> invalidateAllUserRefreshTokens s0 userId = (Inr (), s1))"

text \<open>Every stored refresh row with this token id and user is marked removed.\<close>

definition no_active_row :: "string \<Rightarrow> ObjectId \<Rightarrow> Token list \<Rightarrow> bool" where
  "no_active_row tokenId uid ts = (\<forall>d\<in>set ts. refreshTokenFilter tokenId uid d \<longrightarrow> t_is_removed d)"

text \<open>
  A refresh credential is active: a stored refresh row with that token id that is neither
  removed nor past its expiry.
\<close>

definition activeRefresh :: "state \<Rightarrow> nat \<Rightarrow> string \<Rightarrow> bool" where
  "activeRefresh s now tokenId =
     list_ex (\<lambda>d. t_token_id d = tokenId \<and> t_type d = RefreshToken
                  \<and> \<not> t_is_removed d \<and> now < t_expires_at d) (tokens s)"

text \<open>
  The states a \<open>reissueToken\<close> that reaches its writes passes through, in order: at
  entry, after the blacklist entry, after \<open>invalidateToken\<close> (with or without the row
  update, as the database accepts it or not), and at its end, after the insert of
  \<open>generateRefreshToken\<close>.
\<close>

definition rotation_states :: "env \<Rightarrow> state \<Rightarrow> jwt \<Rightarrow> nat \<Rightarrow> string \<Rightarrow> bool \<Rightarrow> state list" where
  "rotation_states e s refreshToken now newTokenId updateAccepted =
     [s,
      s\<lparr>tokenBlacklist := insert refreshToken (tokenBlacklist s)\<rparr>,
      invalidateToken s refreshToken updateAccepted,
      snd (reissueToken e s refreshToken now newTokenId updateAccepted)]"

text \<open>The active roles of a user, as \<open>getUserPermissionsFromDB\<close> selects them.\<close>

definition activeRoles :: "state \<Rightarrow> User \<Rightarrow> Role list" where
  "activeRoles s user = find_toArray (\<lambda>r. r_id r \<in> set (u_roles user) \<and> r_is_active r = True) (roles s)"

text \<open>The permission cache holds an entry for the user that is younger than the TTL.\<close>

definition cache_hit :: "state \<Rightarrow> string \<Rightarrow> nat \<Rightarrow> bool" where
  "cache_hit s userId now =
     (case permissionCache s userId of
        None \<Rightarrow> False
      | Some cachedData \<Rightarrow> int now - int (timestamp cachedData) < CACHE_TTL)"

section \<open>Sample data\<close>

definition sample_env :: env where
  "sample_env =
     \<lparr>ACCESS_TOKEN_PRIVATE_KEY = ''access-key'', REFRESH_TOKEN_PRIVATE_KEY = ''refresh-key'',
      FORGOT_PASSWORD_TOKEN_PRIVATE_KEY = ''forgot-key'', OTP_SECRET = ''otp-key'',
      ACCESS_TOKEN_EXPIRESIN = 900, REFRESH_TOKEN_EXPIRESIN = 604800,
      FORGOT_PASSWORD_TOKEN_EXPIRESIN = 900,
      HASH_ALGORITHMS = ''sha256'', PASSWORD_SECRET = ''pepper''\<rparr>"

text \<open>A stand-in for the digests: it keeps its input readable and is injective.\<close>

definition sample_crypto :: crypto where
  "sample_crypto =
     \<lparr>createHash = (\<lambda>alg content. alg @ ''#'' @ content),
      createHmac = (\<lambda>alg key content. alg @ ''#'' @ key @ ''#'' @ content)\<rparr>"

definition sample_userId :: string where
  "sample_userId = ''64b7f0c2a1d3e4f5a6b7c801''"

definition sample_roleId :: string where
  "sample_roleId = ''64b7f0c2a1d3e4f5a6b7c802''"

definition sample_user :: User where
  "sample_user =
     \<lparr>u_id = ObjectId sample_userId, u_email = ''p@x.io'',
      u_password = hashPassword sample_crypto sample_env ''Old-pass1'',
      u_roles = [ObjectId sample_roleId], u_verify = Some Verified, u_is_removed = False\<rparr>"

definition sample_admin_role :: Role where
  "sample_admin_role =
     \<lparr>r_id = ObjectId sample_roleId, r_name = ''Admin'', r_is_active = True, r_permissions = []\<rparr>"

definition sample_permission :: Permission where
  "sample_permission =
     \<lparr>pm_id = ObjectId ''64b7f0c2a1d3e4f5a6b7c803'', pm_name = ''user:read'', pm_action = ''read'',
      pm_subject = ''User'', pm_conditions = None\<rparr>"

definition sample_state :: state where
  "sample_state =
     \<lparr>users = [sample_user], roles = [sample_admin_role], permissions = [sample_permission],
      otps = [], tokens = [], tokenBlacklist = {}, permissionCache = Map.empty\<rparr>"

definition sample_tokenId :: string where
  "sample_tokenId = ''64b7f0c2a1d3e4f5a6b7c810''"

text \<open>The refresh token that \<open>generateRefreshToken\<close> issues to the sample user at time 0.\<close>

definition sample_refresh_token :: jwt where
  "sample_refresh_token =
     Signed \<lparr>p_sub = sample_userId, p_type = RefreshToken, p_iat = 0, p_exp = 604800,
             p_email = None, p_roles = None, p_tokenId = Some sample_tokenId\<rparr> ''refresh-key''"

definition sample_token_row :: Token where
  "sample_token_row =
     \<lparr>t_token_id = sample_tokenId, t_user_id = ObjectId sample_userId,
      t_token = sample_refresh_token, t_type = RefreshToken,
      t_expires_at = 604800000, t_is_removed = False\<rparr>"

definition sample_session :: state where
  "sample_session = sample_state\<lparr>tokens := [sample_token_row]\<rparr>"

definition sample_tokenId2 :: string where
  "sample_tokenId2 = ''64b7f0c2a1d3e4f5a6b7c811''"

text \<open>
  The password-reset code \<^verbatim>\<open>482913\<close> that \<open>forgotPassword\<close> stores for the sample
  user at time 0: it expires at 900000 (15 minutes) and is not used.
\<close>

definition sample_reset_otp :: Otp where
  "sample_reset_otp =
     \<lparr>o_id = ObjectId ''64b7f0c2a1d3e4f5a6b7c820'', o_user_id = ObjectId sample_userId,
      o_code = encryptOTP sample_crypto sample_env ''482913'',
      o_expired_at = 900000, o_created_at = 0, o_type = PasswordReset, o_is_used = False\<rparr>"

definition sample_reset_state :: state where
  "sample_reset_state = sample_session\<lparr>otps := [sample_reset_otp]\<rparr>"

text \<open>
  A second code, \<^verbatim>\<open>771204\<close>, requested through \<open>resendOTP\<close> one minute later; then
  that code is verified, the password is reset, and the first code is presented.
\<close>

definition sample_resent_state :: state where
  "sample_resent_state =
     snd (resendOTP sample_crypto sample_env sample_reset_state ''p@x.io'' (Some PasswordReset)
            ''771204'' 60000 (ObjectId ''64b7f0c2a1d3e4f5a6b7c821''))"

definition sample_resent_verified_state :: state where
  "sample_resent_verified_state =
     snd (verifyPasswordResetOTP sample_crypto sample_env sample_resent_state
            ''771204'' ''p@x.io'' 120000)"

definition sample_resent_reset_state :: state where
  "sample_resent_reset_state =
     snd (resetPassword sample_crypto sample_env sample_resent_verified_state
            ''p@x.io'' ''New-pass2'')"

text \<open>
  The sample user holds the active Admin role, and the permission cache still holds the
  empty list that was computed for the user at time 0.
\<close>

definition sample_cached_state :: state where
  "sample_cached_state =
     sample_state\<lparr>permissionCache := [sample_userId \<mapsto> \<lparr>permissions_of = [], timestamp = 0\<rparr>]\<rparr>"

text \<open>
  The cache holds, for the sample user, a list computed at time 0 that is not what the
  database would give now.
\<close>

definition sample_stale_permission :: CachedPermission where
  "sample_stale_permission =
     \<lparr>cp_id = ''64b7f0c2a1d3e4f5a6b7c804'', cp_name = ''course:read'', cp_action = ''read'',
      cp_subject = ''Course'', cp_conditions = None\<rparr>"

definition sample_warm_state :: state where
  "sample_warm_state =
     sample_state\<lparr>permissionCache :=
       [sample_userId \<mapsto> \<lparr>permissions_of = [sample_stale_permission], timestamp = 0\<rparr>]\<rparr>"

section \<open>Lemmas about the collections and the token service\<close>

lemma findOne_None_iff: "findOne P xs = None \<longleftrightarrow> (\<forall>x\<in>set xs. \<not> P x)"
  by (auto simp: findOne_def find_None_iff)

lemma findOne_active_None:
  "no_active_row tokenId uid ts \<Longrightarrow>
   findOne (\<lambda>d. refreshTokenFilter tokenId uid d \<and> \<not> t_is_removed d) ts = None"
  by (auto simp: findOne_None_iff no_active_row_def)

lemma validateToken_valid_refreshD:
  assumes "valid (validateToken e s tok RefreshToken now)"
  obtains pl tokenId uid d where
    "tok = Signed pl (REFRESH_TOKEN_PRIVATE_KEY e)" "p_type pl = RefreshToken"
    "p_tokenId pl = Some tokenId" "tokenId \<noteq> []" "p_sub pl \<noteq> []"
    "new_ObjectId (p_sub pl) = Some uid"
    "findOne (\<lambda>d. refreshTokenFilter tokenId uid d \<and> \<not> t_is_removed d) (tokens s) = Some d"
    "tok \<notin> tokenBlacklist s" "now div 1000 < p_exp pl"
    "payload (validateToken e s tok RefreshToken now) = Some pl"
proof (cases tok)
  case (Malformed x)
  with assms show ?thesis by (simp add: validateToken_def invalidToken_def Let_def split: if_splits)
next
  case (Signed pl k)
  have nb: "tok \<notin> tokenBlacklist s"
    using assms by (auto simp: validateToken_def invalidToken_def)
  have k: "k = REFRESH_TOKEN_PRIVATE_KEY e" and ex: "now div 1000 < p_exp pl"
    using assms nb Signed by (auto simp: validateToken_def invalidToken_def Let_def split: if_splits)
  have v: "jwt_verify tok (REFRESH_TOKEN_PRIVATE_KEY e) now = Inr pl"
    using k ex Signed by simp
  have ty: "p_type pl = RefreshToken"
    using assms nb v by (auto simp: validateToken_def invalidToken_def Let_def split: if_splits)
  obtain tokenId where t: "p_tokenId pl = Some tokenId"
    using assms nb v ty by (cases "p_tokenId pl") (auto simp: validateToken_def invalidToken_def Let_def split: if_splits)
  have ne: "tokenId \<noteq> []" "p_sub pl \<noteq> []"
    using assms nb v ty t by (auto simp: validateToken_def invalidToken_def Let_def split: if_splits)
  obtain uid where u: "new_ObjectId (p_sub pl) = Some uid"
    using assms nb v ty t ne by (cases "new_ObjectId (p_sub pl)") (auto simp: validateToken_def invalidToken_def Let_def split: if_splits)
  obtain d where d: "findOne (\<lambda>d. refreshTokenFilter tokenId uid d \<and> \<not> t_is_removed d) (tokens s) = Some d"
    using assms nb v ty t ne u
    by (cases "findOne (\<lambda>d. refreshTokenFilter tokenId uid d \<and> \<not> t_is_removed d) (tokens s)")
       (auto simp: validateToken_def invalidToken_def Let_def split: if_splits)
  have p: "payload (validateToken e s tok RefreshToken now) = Some pl"
    using assms nb v ty t ne u d by (auto simp: validateToken_def invalidToken_def Let_def split: if_splits)
  show ?thesis using that[OF _ ty t ne u d nb ex p] Signed k by simp
qed

lemma updateOne_set: "x \<in> set (updateOne P f xs) \<Longrightarrow> x \<in> set xs \<or> (\<exists>y\<in>set xs. P y \<and> x = f y)"
  by (induction xs) (auto split: if_splits)

lemma updateOne_revokes:
  "distinct (map t_token_id ts) \<Longrightarrow>
   no_active_row tokenId uid (updateOne (refreshTokenFilter tokenId uid) (\<lambda>d. d\<lparr>t_is_removed := True\<rparr>) ts)"
proof (induction ts)
  case Nil
  then show ?case by (simp add: no_active_row_def)
next
  case (Cons a ts)
  show ?case
  proof (cases "refreshTokenFilter tokenId uid a")
    case True
    then have "t_token_id a = tokenId" by (simp add: refreshTokenFilter_def)
    with Cons.prems have "tokenId \<notin> set (map t_token_id ts)" by simp
    then have "\<forall>d\<in>set ts. \<not> refreshTokenFilter tokenId uid d"
      by (auto simp: refreshTokenFilter_def)
    then show ?thesis using True by (simp add: no_active_row_def)
  next
    case False
    then show ?thesis using Cons by (auto simp: no_active_row_def)
  qed
qed

lemma updateMany_revokes:
  "no_active_row tokenId uid (updateMany (\<lambda>d. t_user_id d = uid \<and> t_type d = RefreshToken) (\<lambda>d. d\<lparr>t_is_removed := True\<rparr>) ts)"
  unfolding no_active_row_def updateMany_def
proof (intro ballI impI)
  fix d
  assume d: "d \<in> set (map (\<lambda>x. if t_user_id x = uid \<and> t_type x = RefreshToken
                                then x\<lparr>t_is_removed := True\<rparr> else x) ts)"
    and f: "refreshTokenFilter tokenId uid d"
  from d obtain x where x: "x \<in> set ts"
    "d = (if t_user_id x = uid \<and> t_type x = RefreshToken then x\<lparr>t_is_removed := True\<rparr> else x)"
    by auto
  show "t_is_removed d"
  proof (cases "t_user_id x = uid \<and> t_type x = RefreshToken")
    case True
    with x show ?thesis by simp
  next
    case False
    with x f show ?thesis by (simp add: refreshTokenFilter_def)
  qed
qed

lemma no_active_row_updateOne:
  "no_active_row tokenId uid ts \<Longrightarrow>
   no_active_row tokenId uid (updateOne P (\<lambda>d. d\<lparr>t_is_removed := True\<rparr>) ts)"
  by (induction ts) (auto simp: no_active_row_def refreshTokenFilter_def)

lemma no_active_row_updateMany:
  "no_active_row tokenId uid ts \<Longrightarrow>
   no_active_row tokenId uid (updateMany P (\<lambda>d. d\<lparr>t_is_removed := True\<rparr>) ts)"
  by (auto simp: no_active_row_def updateMany_def refreshTokenFilter_def)

lemma no_active_row_deleteMany:
  "no_active_row tokenId uid ts \<Longrightarrow> no_active_row tokenId uid (deleteMany P ts)"
  by (auto simp: no_active_row_def deleteMany_def)

lemma no_active_row_insertOne:
  "no_active_row tokenId uid ts \<Longrightarrow> t_token_id d \<noteq> tokenId \<Longrightarrow>
   no_active_row tokenId uid (insertOne d ts)"
  by (auto simp: no_active_row_def insertOne_def refreshTokenFilter_def)

lemma tokens_invalidateToken_cases:
  "tokens (invalidateToken s tok accepted) = tokens s \<or>
   (\<exists>P. tokens (invalidateToken s tok accepted)
          = updateOne P (\<lambda>d. d\<lparr>t_is_removed := True\<rparr>) (tokens s))"
  by (auto simp: invalidateToken_def Let_def split: option.splits)

lemma token_call_step_preserves:
  assumes "no_active_row tokenId uid (tokens s)" "tokenId_of tok = Some tokenId" "draws_other_id tok c"
  shows "no_active_row tokenId uid (tokens (token_call_step e s c))"
proof (cases c)
  case (GenerateRefreshToken userId tid now)
  then show ?thesis using assms
    by (auto simp: generateRefreshToken_def Let_def no_active_row_insertOne split: option.splits)
next
  case (InvalidateToken t accepted)
  then show ?thesis using assms(1) tokens_invalidateToken_cases[of s t accepted]
    by (auto simp: no_active_row_updateOne)
next
  case (InvalidateAllUserRefreshTokens userId)
  then show ?thesis using assms(1)
    by (auto simp: invalidateAllUserRefreshTokens_def no_active_row_updateMany split: option.splits)
next
  case (CleanupExpiredTokens now)
  then show ?thesis using assms(1)
    by (auto simp: cleanupExpiredTokens_def Let_def no_active_row_deleteMany)
qed

lemma token_calls_preserve:
  assumes "no_active_row tokenId uid (tokens s)" "tokenId_of tok = Some tokenId"
    "\<forall>c\<in>set cs. draws_other_id tok c"
  shows "no_active_row tokenId uid (tokens (token_calls e s cs))"
  using assms unfolding token_calls_def
proof (induction cs arbitrary: s)
  case Nil
  then show ?case by simp
next
  case (Cons c cs)
  then show ?case using token_call_step_preserves[of tokenId uid s tok c e] by simp
qed

lemma revoked_in_no_active_row:
  assumes "revoked_in s0 tok how s1" "jwt_decode tok = Some pl" "p_tokenId pl = Some tokenId"
    "new_ObjectId (p_sub pl) = Some uid" "p_sub pl \<noteq> []" "tokenId \<noteq> []" "p_type pl = RefreshToken"
  shows "no_active_row tokenId uid (tokens s1)"
proof (cases how)
  case ByInvalidateToken
  then show ?thesis using assms
    by (auto simp: invalidateToken_def Let_def updateOne_revokes)
next
  case (ByInvalidateAll userId)
  then show ?thesis using assms
    by (auto simp: invalidateAllUserRefreshTokens_def token_of_user_def updateMany_revokes split: option.splits)
qed

lemma updateOne_map_key:
  "(\<And>x. key (f x) = key x) \<Longrightarrow> map key (updateOne P f xs) = map key xs"
  by (induction xs) auto

lemma updateOne_unique_removed:
  assumes "distinct (map t_token_id ts)" "d \<in> set ts" "refreshTokenFilter old uid d"
  shows "list_all (\<lambda>x. t_token_id x = old \<longrightarrow> t_is_removed x)
           (updateOne (refreshTokenFilter old uid) (\<lambda>d. d\<lparr>t_is_removed := True\<rparr>) ts)"
  using assms
proof (induction ts)
  case Nil
  then show ?case by simp
next
  case (Cons a ts)
  have old: "t_token_id d = old" using Cons.prems(3) by (simp add: refreshTokenFilter_def)
  show ?case
  proof (cases "refreshTokenFilter old uid a")
    case True
    then have "t_token_id a = old" by (simp add: refreshTokenFilter_def)
    with Cons.prems(1) have "old \<notin> set (map t_token_id ts)" by simp
    then have "list_all (\<lambda>x. t_token_id x = old \<longrightarrow> t_is_removed x) ts"
      by (auto simp: list_all_iff)
    with True show ?thesis by simp
  next
    case False
    with Cons.prems(2,3) have din: "d \<in> set ts" by auto
    with old have "old \<in> set (map t_token_id ts)" by force
    with Cons.prems(1) have "t_token_id a \<noteq> old" by auto
    with False Cons.IH[OF _ din Cons.prems(3)] Cons.prems(1) show ?thesis by simp
  qed
qed

lemma findOne_SomeD: "findOne P xs = Some x \<Longrightarrow> x \<in> set xs \<and> P x"
  by (auto simp: findOne_def find_Some_iff)

lemma reissueToken_okD:
  assumes ok: "reissueToken e s tok now newTokenId accepted = (Inr (accessToken, newRefreshToken), s')"
  obtains pl old uid d where
    "tok = Signed pl (REFRESH_TOKEN_PRIVATE_KEY e)" "p_tokenId pl = Some old"
    "d \<in> set (tokens s)" "refreshTokenFilter old uid d"
    "tokens (invalidateToken s tok True) =
       updateOne (refreshTokenFilter old uid) (\<lambda>d. d\<lparr>t_is_removed := True\<rparr>) (tokens s)"
    "tokens s' = tokens (invalidateToken s tok accepted) @
       [\<lparr>t_token_id = newTokenId, t_user_id = uid, t_token = newRefreshToken,
         t_type = RefreshToken,
         t_expires_at = (now div 1000 + REFRESH_TOKEN_EXPIRESIN e) * 1000,
         t_is_removed = False\<rparr>]"
proof -
  have v: "valid (validateToken e s tok RefreshToken now)"
    using ok by (auto simp: reissueToken_def Let_def split: if_splits)
  then obtain pl old uid d where
    tok: "tok = Signed pl (REFRESH_TOKEN_PRIVATE_KEY e)" and ty: "p_type pl = RefreshToken"
    and t: "p_tokenId pl = Some old" and ne: "old \<noteq> []" "p_sub pl \<noteq> []"
    and u: "new_ObjectId (p_sub pl) = Some uid"
    and d: "findOne (\<lambda>d. refreshTokenFilter old uid d \<and> \<not> t_is_removed d) (tokens s) = Some d"
    and p: "payload (validateToken e s tok RefreshToken now) = Some pl"
    by (rule validateToken_valid_refreshD)
  have inv: "tokens (invalidateToken s tok True) =
       updateOne (refreshTokenFilter old uid) (\<lambda>d. d\<lparr>t_is_removed := True\<rparr>) (tokens s)"
    using tok ty t ne u by (simp add: invalidateToken_def Let_def)
  have nonempty: "tok \<noteq> Malformed []" using tok by simp
  obtain user where usr: "findOne (\<lambda>u. u_id u = uid \<and> u_is_removed u = False) (users s) = Some user"
    using ok v p ne u nonempty
    by (cases "findOne (\<lambda>u. u_id u = uid \<and> u_is_removed u = False) (users s)")
       (auto simp: reissueToken_def Let_def)
  have usr': "findOne (\<lambda>u. u_id u = uid \<and> \<not> u_is_removed u) (users s) = Some user"
    using usr by simp
  have "generateRefreshToken e (invalidateToken s tok accepted) (p_sub pl) newTokenId now
          = (Inr (newRefreshToken, newTokenId), s')"
    using ok v p ne u nonempty usr'
    by (auto simp: reissueToken_def Let_def generateRefreshToken_def split: prod.splits sum.splits)
  then have s': "tokens s' = tokens (invalidateToken s tok accepted) @
       [\<lparr>t_token_id = newTokenId, t_user_id = uid, t_token = newRefreshToken,
         t_type = RefreshToken,
         t_expires_at = (now div 1000 + REFRESH_TOKEN_EXPIRESIN e) * 1000,
         t_is_removed = False\<rparr>]"
    using u by (auto simp: generateRefreshToken_def Let_def insertOne_def)
  from findOne_SomeD[OF d] have "d \<in> set (tokens s)" "refreshTokenFilter old uid d" by auto
  then show ?thesis using that[OF tok t _ _ inv s'] by blast
qed

lemma activeRefresh_absent:
  "tokenId \<notin> set (map t_token_id (tokens s)) \<Longrightarrow> \<not> activeRefresh s t tokenId"
  by (auto simp: activeRefresh_def list_ex_iff)

lemma activeRefresh_removed:
  "list_all (\<lambda>x. t_token_id x = tokenId \<longrightarrow> t_is_removed x) (tokens s) \<Longrightarrow> \<not> activeRefresh s t tokenId"
  by (auto simp: activeRefresh_def list_ex_iff list_all_iff)

lemma BSONError_message_nonempty: "BSONError_message \<noteq> []"
  by (simp add: BSONError_message_def)

lemma validateToken_invalid_error:
  assumes "\<not> valid (validateToken e s tok expectedType now)"
  shows "\<exists>m. error (validateToken e s tok expectedType now) = Some m \<and> m \<noteq> []"
proof (cases "tok \<in> tokenBlacklist s \<or> TOKEN_SECRET_MAP e expectedType = []")
  case True
  then show ?thesis by (auto simp: validateToken_def invalidToken_def Let_def)
next
  case False
  then have nb: "tok \<notin> tokenBlacklist s" and key: "TOKEN_SECRET_MAP e expectedType \<noteq> []" by auto
  show ?thesis
  proof (cases "jwt_verify tok (TOKEN_SECRET_MAP e expectedType) now")
    case (Inl err)
    then show ?thesis using nb key
      by (cases err) (auto simp: validateToken_def invalidToken_def Let_def)
  next
    case (Inr pl)
    show ?thesis
    proof (cases "p_type pl = expectedType")
      case False
      then show ?thesis using nb key Inr
        by (simp add: validateToken_def invalidToken_def Let_def)
    next
      case True
      show ?thesis
      proof (cases "expectedType = RefreshToken")
        case False
        then show ?thesis using nb key Inr True assms
          by (simp add: validateToken_def invalidToken_def Let_def)
      next
        case rt: True
        show ?thesis using nb key Inr True rt assms BSONError_message_nonempty
          by (auto simp: validateToken_def invalidToken_def Let_def split: option.splits)
      qed
    qed
  qed
qed

lemma new_ObjectId_nonempty: "new_ObjectId s = Some uid \<Longrightarrow> s \<noteq> []"
  by (auto simp: new_ObjectId_def split: if_splits)

lemma findOne_list_ex: "list_ex P xs \<Longrightarrow> \<exists>x. findOne P xs = Some x"
  by (induction xs) (auto simp: findOne_def)

lemma updateMany_map_key:
  "(\<And>x. key (f x) = key x) \<Longrightarrow> map key (updateMany P f xs) = map key xs"
  by (induction xs) (auto simp: updateMany_def)

lemma token_call_step_distinct:
  assumes "distinct (map t_token_id (tokens s))" "draws_fresh_ids e s [c]"
  shows "distinct (map t_token_id (tokens (token_call_step e s c)))"
proof (cases c)
  case (GenerateRefreshToken userId tokenId now)
  then show ?thesis using assms
    by (auto simp: generateRefreshToken_def Let_def insertOne_def split: option.splits)
next
  case (InvalidateToken tok accepted)
  have "map t_token_id (tokens (invalidateToken s tok accepted)) = map t_token_id (tokens s)"
    using tokens_invalidateToken_cases[of s tok accepted] by (auto simp: updateOne_map_key)
  then show ?thesis using assms InvalidateToken by simp
next
  case (InvalidateAllUserRefreshTokens userId)
  then show ?thesis using assms
    by (auto simp: invalidateAllUserRefreshTokens_def updateMany_map_key split: option.splits)
next
  case (CleanupExpiredTokens now)
  then show ?thesis using assms
    by (simp add: cleanupExpiredTokens_def Let_def deleteMany_def distinct_map_filter)
qed

lemma token_calls_distinct:
  "distinct (map t_token_id (tokens s)) \<Longrightarrow> draws_fresh_ids e s cs \<Longrightarrow>
   distinct (map t_token_id (tokens (token_calls e s cs)))"
  unfolding token_calls_def
proof (induction cs arbitrary: s)
  case Nil
  then show ?case by simp
next
  case (Cons c cs)
  from Cons.prems(2) have "draws_fresh_ids e s [c]" by (cases c) simp_all
  from token_call_step_distinct[OF Cons.prems(1) this] Cons.prems(2) Cons.IH
  show ?case by simp
qed

lemma validateToken_expired_False: "expired (validateToken e s tok expectedType now) = False"
proof (cases "tok \<in> tokenBlacklist s \<or> TOKEN_SECRET_MAP e expectedType = []")
  case True
  then show ?thesis by (auto simp: validateToken_def invalidToken_def Let_def)
next
  case False
  then have nb: "tok \<notin> tokenBlacklist s" and key: "TOKEN_SECRET_MAP e expectedType \<noteq> []" by auto
  show ?thesis
  proof (cases "jwt_verify tok (TOKEN_SECRET_MAP e expectedType) now")
    case (Inl err)
    then show ?thesis using nb key
      by (cases err) (auto simp: validateToken_def invalidToken_def Let_def)
  next
    case (Inr pl)
    then show ?thesis using nb key
      by (auto simp: validateToken_def invalidToken_def Let_def split: option.splits)
  qed
qed

section \<open>Facts about the sample data\<close>

lemma sample_userId_parses: "new_ObjectId sample_userId = Some (ObjectId sample_userId)"
  by (simp add: new_ObjectId_def sample_userId_def isHexDigit_def toLowerCase_def toLowerChar_def)

lemma sample_userId_nonempty: "sample_userId \<noteq> []"
  by (simp add: sample_userId_def)

lemma sample_session_issued:
  "generateRefreshToken sample_env sample_state sample_userId sample_tokenId 0
     = (Inr (sample_refresh_token, sample_tokenId), sample_session)"
  by (simp add: generateRefreshToken_def sample_userId_parses Let_def jwt_sign_def insertOne_def
      sample_env_def sample_state_def sample_session_def sample_refresh_token_def sample_token_row_def)

lemma sample_refresh_token_valid:
  "valid (validateToken sample_env sample_session sample_refresh_token RefreshToken 30000)"
  by (simp add: validateToken_def Let_def sample_session_def sample_state_def sample_env_def
      sample_refresh_token_def sample_userId_parses sample_userId_nonempty findOne_def
      refreshTokenFilter_def sample_token_row_def sample_tokenId_def)

lemma sample_refresh_token_validates:
  "validateToken sample_env sample_session sample_refresh_token RefreshToken 30000 =
     \<lparr>valid = True, expired = False,
      payload = Some \<lparr>p_sub = sample_userId, p_type = RefreshToken, p_iat = 0, p_exp = 604800,
             p_email = None, p_roles = None, p_tokenId = Some sample_tokenId\<rparr>,
      error = None\<rparr>"
  by (simp add: validateToken_def Let_def sample_session_def sample_state_def sample_env_def
      sample_refresh_token_def sample_userId_parses sample_userId_nonempty findOne_def
      refreshTokenFilter_def sample_token_row_def sample_tokenId_def)

lemma sample_refresh_token_nonempty: "sample_refresh_token \<noteq> Malformed []"
  by (simp add: sample_refresh_token_def)

lemma sample_user_lookup:
  "findOne (\<lambda>u. u_id u = ObjectId sample_userId \<and> \<not> u_is_removed u) (users sample_session)
     = Some sample_user"
  by (simp add: findOne_def sample_session_def sample_state_def sample_user_def)

lemma sample_reissue_succeeds:
  "\<exists>a r s'. reissueToken sample_env sample_session sample_refresh_token 30000 sample_tokenId2 accepted
       = (Inr (a, r), s')"
  by (simp add: reissueToken_def sample_refresh_token_validates Let_def sample_userId_parses
      sample_userId_nonempty sample_refresh_token_nonempty sample_user_lookup
      generateRefreshToken_def)

lemmas sample_defs = sample_reset_state_def sample_session_def sample_state_def sample_user_def
  sample_reset_otp_def sample_env_def sample_crypto_def sample_token_row_def

lemma normalize_sample_email: "toLowerCase (trim ''p@x.io'') = ''p@x.io''"
  by (simp add: toLowerCase_def toLowerChar_def trim_def isSpace_def)

lemma sample_forgotPassword:
  "forgotPassword sample_crypto sample_env sample_session ''p@x.io'' ''482913'' 0
     (ObjectId ''64b7f0c2a1d3e4f5a6b7c820'') = (Inr (), sample_reset_state)"
  by (simp add: forgotPassword_def normalize_sample_email Let_def findOne_def deleteMany_def
      insertOne_def createOTPExpiration_def sample_defs)

lemma sample_resent_state_eq:
  "sample_resent_state = sample_reset_state\<lparr>otps := [sample_reset_otp,
     \<lparr>o_id = ObjectId ''64b7f0c2a1d3e4f5a6b7c821'', o_user_id = ObjectId sample_userId,
      o_code = encryptOTP sample_crypto sample_env ''771204'',
      o_expired_at = 960000, o_created_at = 60000, o_type = PasswordReset, o_is_used = False\<rparr>]\<rparr>"
  by (simp add: sample_resent_state_def resendOTP_def normalize_sample_email Let_def findOne_def
      insertOne_def createOTPExpiration_def sample_reset_state_def sample_session_def
      sample_state_def sample_user_def)

lemma sample_resent_verified_state_eq:
  "sample_resent_verified_state = sample_reset_state\<lparr>otps := [sample_reset_otp,
     \<lparr>o_id = ObjectId ''64b7f0c2a1d3e4f5a6b7c821'', o_user_id = ObjectId sample_userId,
      o_code = encryptOTP sample_crypto sample_env ''771204'',
      o_expired_at = 960000, o_created_at = 60000, o_type = PasswordReset, o_is_used = True\<rparr>]\<rparr>"
  by (simp add: sample_resent_verified_state_def sample_resent_state_eq verifyPasswordResetOTP_def
      normalize_sample_email Let_def findOne_def findOne_sorted_desc_def otp_verifyOTP_def
      encryptOTP_def sample_defs)

lemma sample_resent_reset_state_eq:
  "sample_resent_reset_state = sample_reset_state\<lparr>
      users := [sample_user\<lparr>u_password := hashPassword sample_crypto sample_env ''New-pass2''\<rparr>],
      tokens := [sample_token_row\<lparr>t_is_removed := True\<rparr>],
      otps := [sample_reset_otp]\<rparr>"
  by (simp add: sample_resent_reset_state_def sample_resent_verified_state_eq resetPassword_def
      Let_def findOne_def comparePassword_def hashPassword_def initialHashPassword_def
      invalidateAllUserRefreshTokens_def sample_userId_parses deleteMany_def updateMany_def
      encryptOTP_def sample_defs)

lemma sample_not_found:
  "validateToken sample_env sample_state sample_refresh_token RefreshToken 30000
     = invalidToken ''Token has been revoked or does not exist''"
  by (simp add: validateToken_def Let_def sample_state_def sample_env_def
      sample_refresh_token_def sample_userId_parses sample_userId_nonempty findOne_def
      sample_tokenId_def)

lemma sample_expired:
  "validateToken sample_env sample_state sample_refresh_token RefreshToken 604800000
     = invalidToken ''Token has expired''"
  by (simp add: validateToken_def Let_def sample_state_def sample_env_def
      sample_refresh_token_def)

lemma sample_user_by_id:
  "findOne (\<lambda>u. u_id u = ObjectId sample_userId) (users sample_state) = Some sample_user"
  by (simp add: findOne_def sample_state_def sample_user_def)

lemma sample_activeRoles: "activeRoles sample_state sample_user = [sample_admin_role]"
  by (simp add: activeRoles_def find_toArray_def sample_state_def sample_user_def
      sample_admin_role_def)

lemma sample_reissue_tokens:
  "tokens (snd (reissueToken sample_env sample_session sample_refresh_token 30000 sample_tokenId2
                  accepted))
     = tokens (invalidateToken sample_session sample_refresh_token accepted) @
       [\<lparr>t_token_id = sample_tokenId2, t_user_id = ObjectId sample_userId,
         t_token = jwt_sign \<lparr>p_sub = sample_userId, p_type = RefreshToken, p_iat = 30,
                      p_exp = 30 + REFRESH_TOKEN_EXPIRESIN sample_env,
                      p_email = None, p_roles = None, p_tokenId = Some sample_tokenId2\<rparr>
                    (REFRESH_TOKEN_PRIVATE_KEY sample_env),
         t_type = RefreshToken,
         t_expires_at = (30 + REFRESH_TOKEN_EXPIRESIN sample_env) * 1000,
         t_is_removed = False\<rparr>]"
  by (simp add: reissueToken_def sample_refresh_token_validates Let_def sample_userId_parses
      sample_userId_nonempty sample_refresh_token_nonempty sample_user_lookup
      generateRefreshToken_def insertOne_def)

lemma sample_rejected_update_tokens:
  "tokens (invalidateToken sample_session sample_refresh_token False) = [sample_token_row]"
  by (simp add: invalidateToken_def Let_def sample_refresh_token_def sample_userId_parses
      sample_userId_nonempty sample_tokenId_def sample_session_def sample_state_def)

lemma sample_user_by_id_warm:
  "findOne (\<lambda>u. u_id u = ObjectId sample_userId) (users sample_warm_state) = Some sample_user"
  by (simp add: findOne_def sample_warm_state_def sample_state_def sample_user_def)

section \<open>Revocation of refresh tokens\<close>

text \<open>
  Claim C1. Once the row of a refresh token has been marked removed, by
  \<open>invalidateToken\<close> or by \<open>invalidateAllUserRefreshTokens\<close> for its user, every
  later \<open>validateToken\<close> for \<open>RefreshToken\<close> answers invalid: after any further
  calls of the token service (which draw fresh token ids, and whose own row updates the
  database may accept or reject), at any time, and whatever the
  in-memory blacklist \<open>B\<close> holds, the empty blacklist of a fresh process included. The
  lookup filters on \<^verbatim>\<open>is_removed\<close> in the collection itself.
\<close>

theorem revoked_refresh_token_stays_invalid:
  assumes rev: "revoked_in s0 tok how s1"
    and later: "list_all (draws_other_id tok) calls"
  shows "valid (validateToken e ((token_calls e s1 calls)\<lparr>tokenBlacklist := B\<rparr>) tok RefreshToken now) = False"
proof (rule ccontr)
  let ?s = "(token_calls e s1 calls)\<lparr>tokenBlacklist := B\<rparr>"
  assume "valid (validateToken e ?s tok RefreshToken now) \<noteq> False"
  then have "valid (validateToken e ?s tok RefreshToken now)" by simp
  then obtain pl tokenId uid d where
    tok: "tok = Signed pl (REFRESH_TOKEN_PRIVATE_KEY e)" and ty: "p_type pl = RefreshToken"
    and t: "p_tokenId pl = Some tokenId" and ne: "tokenId \<noteq> []" "p_sub pl \<noteq> []"
    and u: "new_ObjectId (p_sub pl) = Some uid"
    and d: "findOne (\<lambda>d. refreshTokenFilter tokenId uid d \<and> \<not> t_is_removed d) (tokens ?s) = Some d"
    by (rule validateToken_valid_refreshD)
  have dec: "jwt_decode tok = Some pl" using tok by simp
  have tid: "tokenId_of tok = Some tokenId" using dec t by (simp add: tokenId_of_def)
  have "no_active_row tokenId uid (tokens s1)"
    using revoked_in_no_active_row[OF rev dec t u ne(2) ne(1) ty] .
  then have "no_active_row tokenId uid (tokens (token_calls e s1 calls))"
    using token_calls_preserve[OF _ tid] later by (simp add: list_all_iff)
  then have "findOne (\<lambda>d. refreshTokenFilter tokenId uid d \<and> \<not> t_is_removed d) (tokens ?s) = None"
    by (simp add: findOne_active_None)
  with d show False by simp
qed


theorem revoked_refresh_token_stays_invalid_witness:
  "revoked_in sample_session sample_refresh_token ByInvalidateToken
     (invalidateToken sample_session sample_refresh_token True)
   \<and> list_all (draws_other_id sample_refresh_token)
         [GenerateRefreshToken sample_userId ''64b7f0c2a1d3e4f5a6b7c811'' 60000,
          CleanupExpiredTokens 120000]
   \<and> valid (validateToken sample_env sample_session sample_refresh_token RefreshToken 30000)
   \<and> valid (validateToken sample_env
        ((token_calls sample_env (invalidateToken sample_session sample_refresh_token True)
           [GenerateRefreshToken sample_userId ''64b7f0c2a1d3e4f5a6b7c811'' 60000,
            CleanupExpiredTokens 120000])\<lparr>tokenBlacklist := {}\<rparr>)
        sample_refresh_token RefreshToken 30000) = False"
proof -
  have h1: "revoked_in sample_session sample_refresh_token ByInvalidateToken
     (invalidateToken sample_session sample_refresh_token True)"
    by (simp add: sample_session_def sample_state_def)
  have h2: "list_all (draws_other_id sample_refresh_token)
         [GenerateRefreshToken sample_userId ''64b7f0c2a1d3e4f5a6b7c811'' 60000,
          CleanupExpiredTokens 120000]"
    by (simp add: tokenId_of_def sample_refresh_token_def sample_tokenId_def)
  show ?thesis
    using h1 h2 sample_refresh_token_valid
      revoked_refresh_token_stays_invalid [OF h1 h2, of sample_env "{}" 30000]
    by simp
qed

section \<open>Rotation of refresh tokens\<close>

text \<open>
  Claim C2, as amended. After a successful \<open>reissueToken\<close> in which the database
  accepts the row update of \<open>invalidateToken\<close>, in a collection with unique token ids
  and with a fresh id drawn for the new token, the row of the presented refresh token is
  stored and marked removed, and a row for the new refresh token is stored, not removed.
  In none of the states that call passes through are the old and the new credential both
  active (stored, not removed and not expired), at whatever time \<open>t\<close> one looks.
\<close>

theorem reissueToken_rotates:
  assumes ok: "reissueToken e s refreshToken now newTokenId True
                 = (Inr (accessToken, newRefreshToken), s')"
    and uniq: "distinct (map t_token_id (tokens s))"
    and fresh: "newTokenId \<notin> set (map t_token_id (tokens s))"
  shows "\<exists>old. tokenId_of refreshToken = Some old
     \<and> list_ex (\<lambda>d. t_token_id d = old) (tokens s')
     \<and> list_all (\<lambda>d. t_token_id d = old \<longrightarrow> t_is_removed d) (tokens s')
     \<and> list_ex (\<lambda>d. t_token_id d = newTokenId \<and> t_token d = newRefreshToken
                     \<and> t_type d = RefreshToken \<and> \<not> t_is_removed d) (tokens s')
     \<and> list_all (\<lambda>st. \<not> (activeRefresh st t old \<and> activeRefresh st t newTokenId))
                (rotation_states e s refreshToken now newTokenId True)"
proof -
  let ?mark = "\<lambda>d. d\<lparr>t_is_removed := True\<rparr>"
  from ok obtain pl old uid d where
    tok: "refreshToken = Signed pl (REFRESH_TOKEN_PRIVATE_KEY e)" and t: "p_tokenId pl = Some old"
    and d: "d \<in> set (tokens s)" "refreshTokenFilter old uid d"
    and inv: "tokens (invalidateToken s refreshToken True) = updateOne (refreshTokenFilter old uid) ?mark (tokens s)"
    and s': "tokens s' = tokens (invalidateToken s refreshToken True) @
       [\<lparr>t_token_id = newTokenId, t_user_id = uid, t_token = newRefreshToken,
         t_type = RefreshToken,
         t_expires_at = (now div 1000 + REFRESH_TOKEN_EXPIRESIN e) * 1000,
         t_is_removed = False\<rparr>]"
    by (rule reissueToken_okD)
  have tid: "tokenId_of refreshToken = Some old" using tok t by (simp add: tokenId_of_def)
  have oldid: "t_token_id d = old" using d(2) by (simp add: refreshTokenFilter_def)
  have neq: "newTokenId \<noteq> old" using fresh d(1) oldid by auto
  have ids: "map t_token_id (tokens (invalidateToken s refreshToken True)) = map t_token_id (tokens s)"
    unfolding inv by (rule updateOne_map_key) simp
  have rem1: "list_all (\<lambda>x. t_token_id x = old \<longrightarrow> t_is_removed x) (tokens (invalidateToken s refreshToken True))"
    unfolding inv by (rule updateOne_unique_removed[OF uniq d])
  have rem: "list_all (\<lambda>x. t_token_id x = old \<longrightarrow> t_is_removed x) (tokens s')"
    using rem1 neq by (simp add: s')
  have "old \<in> set (map t_token_id (tokens s))" using d(1) oldid by force
  then have "old \<in> set (map t_token_id (tokens (invalidateToken s refreshToken True)))" by (simp only: ids)
  then have ex_old: "list_ex (\<lambda>d. t_token_id d = old) (tokens s')"
    by (auto simp: s' list_ex_iff)
  have ex_new: "list_ex (\<lambda>d. t_token_id d = newTokenId \<and> t_token d = newRefreshToken
                     \<and> t_type d = RefreshToken \<and> \<not> t_is_removed d) (tokens s')"
    by (simp add: s')
  have a1: "\<not> activeRefresh s t newTokenId" by (rule activeRefresh_absent[OF fresh])
  have a2: "\<not> activeRefresh (s\<lparr>tokenBlacklist := insert refreshToken (tokenBlacklist s)\<rparr>) t newTokenId"
    using fresh by (intro activeRefresh_absent) simp
  have a3: "\<not> activeRefresh (invalidateToken s refreshToken True) t newTokenId"
    using fresh by (intro activeRefresh_absent) (simp only: ids, simp)
  have a4: "\<not> activeRefresh s' t old" by (rule activeRefresh_removed[OF rem])
  have s'_eq: "snd (reissueToken e s refreshToken now newTokenId True) = s'" using ok by simp
  have states: "list_all (\<lambda>st. \<not> (activeRefresh st t old \<and> activeRefresh st t newTokenId))
                (rotation_states e s refreshToken now newTokenId True)"
    using a1 a2 a3 a4 by (simp add: rotation_states_def s'_eq)
  from tid ex_old rem ex_new states show ?thesis by blast
qed

theorem reissueToken_rotates_witness:
  "distinct (map t_token_id (tokens sample_session))
   \<and> sample_tokenId2 \<notin> set (map t_token_id (tokens sample_session))
   \<and> (\<exists>a r s'. reissueToken sample_env sample_session sample_refresh_token 30000 sample_tokenId2 True
          = (Inr (a, r), s')
        \<and> tokenId_of sample_refresh_token = Some sample_tokenId
        \<and> list_ex (\<lambda>d. t_token_id d = sample_tokenId) (tokens s')
        \<and> list_all (\<lambda>d. t_token_id d = sample_tokenId \<longrightarrow> t_is_removed d) (tokens s')
        \<and> list_ex (\<lambda>d. t_token_id d = sample_tokenId2 \<and> t_token d = r
                        \<and> t_type d = RefreshToken \<and> \<not> t_is_removed d) (tokens s')
        \<and> list_all (\<lambda>st. \<not> (activeRefresh st 30000 sample_tokenId
                               \<and> activeRefresh st 30000 sample_tokenId2))
             (rotation_states sample_env sample_session sample_refresh_token 30000 sample_tokenId2
                True))"
proof -
  have uniq: "distinct (map t_token_id (tokens sample_session))"
    by (simp add: sample_session_def sample_state_def)
  have fresh: "sample_tokenId2 \<notin> set (map t_token_id (tokens sample_session))"
    by (simp add: sample_session_def sample_state_def sample_token_row_def sample_tokenId_def
        sample_tokenId2_def)
  obtain a r s' where ok:
    "reissueToken sample_env sample_session sample_refresh_token 30000 sample_tokenId2 True
       = (Inr (a, r), s')"
    using sample_reissue_succeeds by blast
  have tid: "tokenId_of sample_refresh_token = Some sample_tokenId"
    by (simp add: tokenId_of_def sample_refresh_token_def)
  from reissueToken_rotates [OF ok uniq fresh, of 30000] tid ok uniq fresh
  show ?thesis by auto
qed

text \<open>
  The claim as stated fails: when the database rejects the row update,
  \<open>invalidateToken\<close> catches the rejection and \<open>reissueToken\<close> still succeeds. The
  old row is then stored beside the new one with neither marked removed, and both
  credentials are active.
\<close>

theorem reissueToken_rejected_update_counterexample:
  "distinct (map t_token_id (tokens sample_session))
   \<and> sample_tokenId2 \<notin> set (map t_token_id (tokens sample_session))
   \<and> (\<exists>a r. fst (reissueToken sample_env sample_session sample_refresh_token 30000 sample_tokenId2
                     False) = Inr (a, r))
   \<and> map (\<lambda>d. (t_token_id d, t_is_removed d))
        (tokens (snd (reissueToken sample_env sample_session sample_refresh_token 30000
                        sample_tokenId2 False)))
      = [(sample_tokenId, False), (sample_tokenId2, False)]
   \<and> activeRefresh (snd (reissueToken sample_env sample_session sample_refresh_token 30000
                            sample_tokenId2 False)) 30000 sample_tokenId
   \<and> activeRefresh (snd (reissueToken sample_env sample_session sample_refresh_token 30000
                            sample_tokenId2 False)) 30000 sample_tokenId2"
proof -
  have uniq: "distinct (map t_token_id (tokens sample_session))"
    by (simp add: sample_session_def sample_state_def)
  have fresh: "sample_tokenId2 \<notin> set (map t_token_id (tokens sample_session))"
    by (simp add: sample_session_def sample_state_def sample_token_row_def sample_tokenId_def
        sample_tokenId2_def)
  obtain a r s' where ok:
    "reissueToken sample_env sample_session sample_refresh_token 30000 sample_tokenId2 False
       = (Inr (a, r), s')"
    using sample_reissue_succeeds by blast
  then have succ: "\<exists>a r. fst (reissueToken sample_env sample_session sample_refresh_token 30000
                     sample_tokenId2 False) = Inr (a, r)"
    by simp
  have rows: "tokens (snd (reissueToken sample_env sample_session sample_refresh_token 30000
                        sample_tokenId2 False))
      = [sample_token_row,
         \<lparr>t_token_id = sample_tokenId2, t_user_id = ObjectId sample_userId,
           t_token = jwt_sign \<lparr>p_sub = sample_userId, p_type = RefreshToken, p_iat = 30,
                      p_exp = 30 + REFRESH_TOKEN_EXPIRESIN sample_env,
                      p_email = None, p_roles = None, p_tokenId = Some sample_tokenId2\<rparr>
                    (REFRESH_TOKEN_PRIVATE_KEY sample_env),
           t_type = RefreshToken,
           t_expires_at = (30 + REFRESH_TOKEN_EXPIRESIN sample_env) * 1000,
           t_is_removed = False\<rparr>]"
    by (simp add: sample_reissue_tokens sample_rejected_update_tokens)
  have ttl: "REFRESH_TOKEN_EXPIRESIN sample_env = 604800" by (simp add: sample_env_def)
  have m: "map (\<lambda>d. (t_token_id d, t_is_removed d))
        (tokens (snd (reissueToken sample_env sample_session sample_refresh_token 30000
                        sample_tokenId2 False)))
      = [(sample_tokenId, False), (sample_tokenId2, False)]"
    by (simp add: rows sample_token_row_def)
  have a1: "activeRefresh (snd (reissueToken sample_env sample_session sample_refresh_token 30000
                            sample_tokenId2 False)) 30000 sample_tokenId"
    by (simp add: activeRefresh_def rows sample_token_row_def)
  have a2: "activeRefresh (snd (reissueToken sample_env sample_session sample_refresh_token 30000
                            sample_tokenId2 False)) 30000 sample_tokenId2"
    by (simp add: activeRefresh_def rows ttl)
  from uniq fresh succ m a1 a2 show ?thesis by blast
qed

section \<open>One-time codes are consumed once\<close>

text \<open>
  Claim C3. A successful verification sets \<^verbatim>\<open>is_used\<close>, for both purposes, and
  \<open>verifyOTP\<close> filters its lookup on \<^verbatim>\<open>is_used\<close>.
  \<open>verifyPasswordResetOTP\<close> has no such filter: the stored reset code
  \<^verbatim>\<open>482913\<close> is accepted at 5 minutes, is then marked used, and is accepted again when
  it is presented a second time before its expiry.
\<close>

theorem password_reset_code_validates_twice:
  "fst (verifyPasswordResetOTP sample_crypto sample_env sample_reset_state ''482913'' ''p@x.io'' 300000)
     = Inr (sample_userId, ''p@x.io'')
   \<and> map o_is_used (otps (snd (verifyPasswordResetOTP sample_crypto sample_env sample_reset_state
                                  ''482913'' ''p@x.io'' 300000))) = [True]
   \<and> fst (verifyPasswordResetOTP sample_crypto sample_env
            (snd (verifyPasswordResetOTP sample_crypto sample_env sample_reset_state
                    ''482913'' ''p@x.io'' 300000))
            ''482913'' ''p@x.io'' 300001)
     = Inr (sample_userId, ''p@x.io'')"
  by (simp add: verifyPasswordResetOTP_def normalize_sample_email Let_def findOne_def
      findOne_sorted_desc_def otp_verifyOTP_def encryptOTP_def sample_defs)

section \<open>The error of a failed refresh\<close>

text \<open>
  Claim C4, as amended. When a non-empty refresh token fails validation (expired, revoked,
  not stored, malformed, blacklisted), \<open>reissueToken\<close> throws an \<^verbatim>\<open>ErrorWithStatus\<close>
  with status \<open>UN_AUTHORIZED\<close> whose message is the non-empty error string that
  \<open>validateToken\<close> reports for that token, and leaves the state as it was.
\<close>

theorem reissueToken_invalid_token_error:
  assumes ne: "refreshToken \<noteq> Malformed []"
    and inv: "\<not> valid (validateToken e s refreshToken RefreshToken now)"
  shows "\<exists>m. error (validateToken e s refreshToken RefreshToken now) = Some m \<and> m \<noteq> []
     \<and> reissueToken e s refreshToken now newTokenId updateAccepted
           = (Inl (ErrorWithStatus m UN_AUTHORIZED), s)"
proof -
  from validateToken_invalid_error[OF inv] obtain m where
    m: "error (validateToken e s refreshToken RefreshToken now) = Some m" "m \<noteq> []" by blast
  then have "reissueToken e s refreshToken now newTokenId updateAccepted
           = (Inl (ErrorWithStatus m UN_AUTHORIZED), s)"
    using ne inv by (simp add: reissueToken_def Let_def)
  with m show ?thesis by blast
qed

theorem reissueToken_invalid_token_error_witness:
  "sample_refresh_token \<noteq> Malformed []
   \<and> \<not> valid (validateToken sample_env sample_state sample_refresh_token RefreshToken 30000)
   \<and> reissueToken sample_env sample_state sample_refresh_token 30000 sample_tokenId2 True
       = (Inl (ErrorWithStatus ''Token has been revoked or does not exist'' UN_AUTHORIZED), sample_state)"
  using reissueToken_invalid_token_error [OF sample_refresh_token_nonempty,
      of sample_env sample_state 30000 sample_tokenId2 True]
  by (simp add: sample_not_found invalidToken_def sample_refresh_token_nonempty)

text \<open>
  The claim as stated fails: a refresh token whose row is not stored and the same token
  presented after its expiry are two failures that are answered with different errors.
\<close>

theorem reissueToken_errors_differ_counterexample:
  "fst (reissueToken sample_env sample_state sample_refresh_token 30000 sample_tokenId2 True)
     = Inl (ErrorWithStatus ''Token has been revoked or does not exist'' UN_AUTHORIZED)
   \<and> fst (reissueToken sample_env sample_state sample_refresh_token 604800000 sample_tokenId2 True)
     = Inl (ErrorWithStatus ''Token has expired'' UN_AUTHORIZED)
   \<and> fst (reissueToken sample_env sample_state sample_refresh_token 30000 sample_tokenId2 True)
     \<noteq> fst (reissueToken sample_env sample_state sample_refresh_token 604800000 sample_tokenId2 True)"
  by (simp add: reissueToken_def Let_def sample_not_found sample_expired invalidToken_def
      sample_refresh_token_nonempty)

section \<open>Generated tokens validate\<close>

text \<open>
  Claim C5. A token made by \<open>generateAccessToken\<close> validates as \<open>AccessToken\<close>, and
  one made by \<open>generateRefreshToken\<close> validates as \<open>RefreshToken\<close>, with a payload
  equal to the signed claims, provided the key is not empty, the token is not in the
  blacklist, its expiry is still ahead and, for the refresh token, a row with its token
  id and user is stored and not removed (the user id is a valid object id and the token
  id is not empty).
\<close>

theorem generated_token_validates:
  "(ACCESS_TOKEN_PRIVATE_KEY e \<noteq> []
      \<and> generateAccessToken e userId email rs now \<notin> tokenBlacklist s
      \<and> now' div 1000 < now div 1000 + ACCESS_TOKEN_EXPIRESIN e
    \<longrightarrow> validateToken e s (generateAccessToken e userId email rs now) AccessToken now' =
          \<lparr>valid = True, expired = False,
           payload = Some \<lparr>p_sub = userId, p_type = AccessToken, p_iat = now div 1000,
                           p_exp = now div 1000 + ACCESS_TOKEN_EXPIRESIN e,
                           p_email = Some email, p_roles = Some (map toString rs),
                           p_tokenId = None\<rparr>,
           error = None\<rparr>)
   \<and> (REFRESH_TOKEN_PRIVATE_KEY e \<noteq> [] \<and> tokenId \<noteq> []
      \<and> generateRefreshToken e s_before userId tokenId now = (Inr (tok, tid), s_after)
      \<and> new_ObjectId userId = Some uid
      \<and> tok \<notin> tokenBlacklist s
      \<and> list_ex (\<lambda>d. refreshTokenFilter tokenId uid d \<and> \<not> t_is_removed d) (tokens s)
      \<and> now' div 1000 < now div 1000 + REFRESH_TOKEN_EXPIRESIN e
    \<longrightarrow> validateToken e s tok RefreshToken now' =
          \<lparr>valid = True, expired = False,
           payload = Some \<lparr>p_sub = userId, p_type = RefreshToken, p_iat = now div 1000,
                           p_exp = now div 1000 + REFRESH_TOKEN_EXPIRESIN e,
                           p_email = None, p_roles = None, p_tokenId = Some tokenId\<rparr>,
           error = None\<rparr>)"
proof (intro conjI impI)
  assume "ACCESS_TOKEN_PRIVATE_KEY e \<noteq> []
      \<and> generateAccessToken e userId email rs now \<notin> tokenBlacklist s
      \<and> now' div 1000 < now div 1000 + ACCESS_TOKEN_EXPIRESIN e"
  then show "validateToken e s (generateAccessToken e userId email rs now) AccessToken now' =
          \<lparr>valid = True, expired = False,
           payload = Some \<lparr>p_sub = userId, p_type = AccessToken, p_iat = now div 1000,
                           p_exp = now div 1000 + ACCESS_TOKEN_EXPIRESIN e,
                           p_email = Some email, p_roles = Some (map toString rs),
                           p_tokenId = None\<rparr>,
           error = None\<rparr>"
    by (simp add: validateToken_def generateAccessToken_def jwt_sign_def Let_def)
next
  assume a: "REFRESH_TOKEN_PRIVATE_KEY e \<noteq> [] \<and> tokenId \<noteq> []
      \<and> generateRefreshToken e s_before userId tokenId now = (Inr (tok, tid), s_after)
      \<and> new_ObjectId userId = Some uid
      \<and> tok \<notin> tokenBlacklist s
      \<and> list_ex (\<lambda>d. refreshTokenFilter tokenId uid d \<and> \<not> t_is_removed d) (tokens s)
      \<and> now' div 1000 < now div 1000 + REFRESH_TOKEN_EXPIRESIN e"
  then have tok: "tok = Signed \<lparr>p_sub = userId, p_type = RefreshToken, p_iat = now div 1000,
                           p_exp = now div 1000 + REFRESH_TOKEN_EXPIRESIN e,
                           p_email = None, p_roles = None, p_tokenId = Some tokenId\<rparr>
                       (REFRESH_TOKEN_PRIVATE_KEY e)"
    by (auto simp: generateRefreshToken_def jwt_sign_def Let_def)
  from a have ne: "userId \<noteq> []" using new_ObjectId_nonempty by blast
  from a obtain d where d: "findOne (\<lambda>d. refreshTokenFilter tokenId uid d \<and> \<not> t_is_removed d) (tokens s) = Some d"
    using findOne_list_ex by blast
  have nb: "Signed \<lparr>p_sub = userId, p_type = RefreshToken, p_iat = now div 1000,
                           p_exp = now div 1000 + REFRESH_TOKEN_EXPIRESIN e,
                           p_email = None, p_roles = None, p_tokenId = Some tokenId\<rparr>
                       (REFRESH_TOKEN_PRIVATE_KEY e) \<notin> tokenBlacklist s"
    using a tok by simp
  show "validateToken e s tok RefreshToken now' =
          \<lparr>valid = True, expired = False,
           payload = Some \<lparr>p_sub = userId, p_type = RefreshToken, p_iat = now div 1000,
                           p_exp = now div 1000 + REFRESH_TOKEN_EXPIRESIN e,
                           p_email = None, p_roles = None, p_tokenId = Some tokenId\<rparr>,
           error = None\<rparr>"
    using a ne d nb unfolding tok
    by (simp add: validateToken_def Let_def)
qed

theorem generated_token_validates_witness:
  "ACCESS_TOKEN_PRIVATE_KEY sample_env \<noteq> []
   \<and> generateAccessToken sample_env sample_userId ''p@x.io'' [ObjectId sample_roleId] 0
        \<notin> tokenBlacklist sample_session
   \<and> (30000::nat) div 1000 < 0 div 1000 + ACCESS_TOKEN_EXPIRESIN sample_env
   \<and> validateToken sample_env sample_session
        (generateAccessToken sample_env sample_userId ''p@x.io'' [ObjectId sample_roleId] 0)
        AccessToken 30000 =
          \<lparr>valid = True, expired = False,
           payload = Some \<lparr>p_sub = sample_userId, p_type = AccessToken, p_iat = 0,
                           p_exp = 900, p_email = Some ''p@x.io'',
                           p_roles = Some [sample_roleId], p_tokenId = None\<rparr>,
           error = None\<rparr>
   \<and> generateRefreshToken sample_env sample_state sample_userId sample_tokenId 0
        = (Inr (sample_refresh_token, sample_tokenId), sample_session)
   \<and> sample_refresh_token \<notin> tokenBlacklist sample_session
   \<and> list_ex (\<lambda>d. refreshTokenFilter sample_tokenId (ObjectId sample_userId) d \<and> \<not> t_is_removed d)
        (tokens sample_session)
   \<and> validateToken sample_env sample_session sample_refresh_token RefreshToken 30000 =
          \<lparr>valid = True, expired = False,
           payload = Some \<lparr>p_sub = sample_userId, p_type = RefreshToken, p_iat = 0,
                           p_exp = 604800, p_email = None, p_roles = None,
                           p_tokenId = Some sample_tokenId\<rparr>,
           error = None\<rparr>"
proof -
  have k: "ACCESS_TOKEN_PRIVATE_KEY sample_env \<noteq> []" "REFRESH_TOKEN_PRIVATE_KEY sample_env \<noteq> []"
    "ACCESS_TOKEN_EXPIRESIN sample_env = 900" "REFRESH_TOKEN_EXPIRESIN sample_env = 604800"
    by (simp_all add: sample_env_def)
  have b: "tokenBlacklist sample_session = {}" by (simp add: sample_session_def sample_state_def)
  have t: "sample_tokenId \<noteq> []" by (simp add: sample_tokenId_def)
  have row: "list_ex (\<lambda>d. refreshTokenFilter sample_tokenId (ObjectId sample_userId) d \<and> \<not> t_is_removed d)
        (tokens sample_session)"
    by (simp add: sample_session_def sample_state_def sample_token_row_def refreshTokenFilter_def)
  from generated_token_validates [where e = sample_env and userId = sample_userId
      and email = "''p@x.io''" and rs = "[ObjectId sample_roleId]" and now = 0
      and s = sample_session and now' = 30000 and tokenId = sample_tokenId
      and s_before = sample_state and tok = sample_refresh_token and tid = sample_tokenId
      and s_after = sample_session and uid = "ObjectId sample_userId"]
    k b t row sample_session_issued sample_userId_parses
  show ?thesis by simp
qed

section \<open>Expired tokens\<close>

text \<open>
  Claim C6. The sample refresh token, signed under the refresh key and not in the
  blacklist, is presented well after its expiry. \<^verbatim>\<open>jwt.verify\<close> refuses it as expired
  and \<open>validateToken\<close> reports \<^verbatim>\<open>Token has expired\<close>, but through \<open>invalidToken\<close>,
  which sets \<^verbatim>\<open>expired\<close> to false: the result does not classify the token as
  expired, and the handler of \<^verbatim>\<open>POST /validate-token\<close>, which chooses its status by
  that flag, answers \<open>BAD_REQUEST\<close> where its route documents \<open>UN_AUTHORIZED\<close> for an
  expired token. The flag is false in every result of \<open>validateToken\<close>.
\<close>

theorem expired_token_not_flagged_expired:
  "jwt_verify sample_refresh_token (TOKEN_SECRET_MAP sample_env RefreshToken) 700000000
     = Inl (TokenExpiredError ''jwt expired'')
   \<and> sample_refresh_token \<notin> tokenBlacklist sample_session
   \<and> validateToken sample_env sample_session sample_refresh_token RefreshToken 700000000
     = \<lparr>valid = False, expired = False, payload = None, error = Some ''Token has expired''\<rparr>
   \<and> validateToken_controller sample_env sample_session sample_refresh_token
        ''refresh_token'' 700000000
     = Inr (BAD_REQUEST, ''Token has expired'')
   \<and> (\<forall>e s tok expectedType now. expired (validateToken e s tok expectedType now) = False)"
proof -
  have v: "jwt_verify sample_refresh_token (TOKEN_SECRET_MAP sample_env RefreshToken) 700000000
     = Inl (TokenExpiredError ''jwt expired'')"
    by (simp add: sample_refresh_token_def sample_env_def)
  have b: "sample_refresh_token \<notin> tokenBlacklist sample_session"
    by (simp add: sample_session_def sample_state_def)
  have k: "TOKEN_SECRET_MAP sample_env RefreshToken \<noteq> []" by (simp add: sample_env_def)
  have r: "validateToken sample_env sample_session sample_refresh_token RefreshToken 700000000
     = \<lparr>valid = False, expired = False, payload = None, error = Some ''Token has expired''\<rparr>"
    using v b k by (simp add: validateToken_def invalidToken_def Let_def)
  have c: "validateToken_controller sample_env sample_session sample_refresh_token
        ''refresh_token'' 700000000
     = Inr (BAD_REQUEST, ''Token has expired'')"
    by (simp add: validateToken_controller_def r sample_refresh_token_nonempty Let_def)
  from v b r c validateToken_expired_False show ?thesis by blast
qed

section \<open>Effective permissions\<close>

text \<open>
  Claim C7, as amended. For a stored user, \<open>getUserPermissionsFromDB\<close> returns the whole
  permission catalogue when one of the user's active roles is named Admin, and the empty
  list when the user has no active role. \<open>getUserPermissions\<close> returns what
  \<open>getUserPermissionsFromDB\<close> returns when the cache holds no entry for the user
  younger than \<open>CACHE_TTL\<close>; when it holds one, it returns the list of that entry
  and leaves the state as it is.
\<close>

theorem permissions_of_admin_and_of_no_role:
  assumes uid: "new_ObjectId userId = Some uid"
    and usr: "findOne (\<lambda>u. u_id u = uid) (users s) = Some user"
  shows "(list_ex (\<lambda>role. r_name role = UserRole_value Admin) (activeRoles s user)
            \<longrightarrow> getUserPermissionsFromDB s userId = Inr (map toCachedPermission (permissions s)))
     \<and> (activeRoles s user = [] \<longrightarrow> getUserPermissionsFromDB s userId = Inr [])
     \<and> (\<not> cache_hit s userId now
            \<longrightarrow> fst (getUserPermissions s userId now) = getUserPermissionsFromDB s userId)
     \<and> (cache_hit s userId now
            \<longrightarrow> (\<exists>cachedData. permissionCache s userId = Some cachedData
                   \<and> getUserPermissions s userId now = (Inr (permissions_of cachedData), s)))"
proof (intro conjI impI)
  assume adm: "list_ex (\<lambda>role. r_name role = UserRole_value Admin) (activeRoles s user)"
  then have ne: "activeRoles s user \<noteq> []" by auto
  then have "u_roles user \<noteq> []" by (auto simp: activeRoles_def find_toArray_def)
  with adm ne show "getUserPermissionsFromDB s userId = Inr (map toCachedPermission (permissions s))"
    using uid usr
    by (simp add: getUserPermissionsFromDB_def Let_def activeRoles_def find_toArray_def)
next
  assume "activeRoles s user = []"
  then show "getUserPermissionsFromDB s userId = Inr []"
    using uid usr
    by (simp add: getUserPermissionsFromDB_def Let_def activeRoles_def find_toArray_def)
next
  assume "\<not> cache_hit s userId now"
  then show "fst (getUserPermissions s userId now) = getUserPermissionsFromDB s userId"
    by (auto simp: getUserPermissions_def cache_hit_def split: option.splits sum.splits)
next
  assume "cache_hit s userId now"
  then show "\<exists>cachedData. permissionCache s userId = Some cachedData
                   \<and> getUserPermissions s userId now = (Inr (permissions_of cachedData), s)"
    by (cases "permissionCache s userId") (auto simp: getUserPermissions_def cache_hit_def)
qed

theorem permissions_of_admin_and_of_no_role_witness:
  "new_ObjectId sample_userId = Some (ObjectId sample_userId)
   \<and> findOne (\<lambda>u. u_id u = ObjectId sample_userId) (users sample_state) = Some sample_user
   \<and> list_ex (\<lambda>role. r_name role = UserRole_value Admin) (activeRoles sample_state sample_user)
   \<and> getUserPermissionsFromDB sample_state sample_userId
        = Inr (map toCachedPermission (permissions sample_state))
   \<and> \<not> cache_hit sample_state sample_userId 1000
   \<and> fst (getUserPermissions sample_state sample_userId 1000)
        = Inr (map toCachedPermission (permissions sample_state))
   \<and> activeRoles (sample_state\<lparr>roles := []\<rparr>) sample_user = []
   \<and> getUserPermissionsFromDB (sample_state\<lparr>roles := []\<rparr>) sample_userId = Inr []
   \<and> cache_hit sample_warm_state sample_userId 1000
   \<and> getUserPermissions sample_warm_state sample_userId 1000
        = (Inr [sample_stale_permission], sample_warm_state)"
proof -
  have adm: "list_ex (\<lambda>role. r_name role = UserRole_value Admin) (activeRoles sample_state sample_user)"
    by (simp add: sample_activeRoles sample_admin_role_def)
  have miss: "\<not> cache_hit sample_state sample_userId 1000"
    by (simp add: cache_hit_def sample_state_def)
  have usr': "findOne (\<lambda>u. u_id u = ObjectId sample_userId) (users (sample_state\<lparr>roles := []\<rparr>))
                = Some sample_user"
    using sample_user_by_id by simp
  have none: "activeRoles (sample_state\<lparr>roles := []\<rparr>) sample_user = []"
    by (simp add: activeRoles_def find_toArray_def)
  have hit: "cache_hit sample_warm_state sample_userId 1000"
    by (simp add: cache_hit_def CACHE_TTL_def sample_warm_state_def)
  have entry: "permissionCache sample_warm_state sample_userId
                 = Some \<lparr>permissions_of = [sample_stale_permission], timestamp = 0\<rparr>"
    by (simp add: sample_warm_state_def)
  from permissions_of_admin_and_of_no_role [OF sample_userId_parses sample_user_by_id, of 1000]
       permissions_of_admin_and_of_no_role [OF sample_userId_parses usr', of 1000]
       permissions_of_admin_and_of_no_role [OF sample_userId_parses sample_user_by_id_warm, of 1000]
       adm miss none hit entry sample_userId_parses sample_user_by_id
  show ?thesis by simp
qed

text \<open>
  The claim as stated fails for \<open>getUserPermissions\<close>: within the TTL it answers from
  the cache, here the empty list for a user who holds the active Admin role.
\<close>

theorem cached_permissions_counterexample:
  "list_ex (\<lambda>role. r_name role = UserRole_value Admin) (activeRoles sample_cached_state sample_user)
   \<and> findOne (\<lambda>u. u_id u = ObjectId sample_userId) (users sample_cached_state) = Some sample_user
   \<and> fst (getUserPermissions sample_cached_state sample_userId 1000) = Inr []
   \<and> map toCachedPermission (permissions sample_cached_state) \<noteq> []"
  by (simp add: getUserPermissions_def CACHE_TTL_def sample_cached_state_def activeRoles_def
      find_toArray_def findOne_def sample_state_def sample_user_def sample_admin_role_def)

section \<open>Issuing a code and the earlier codes\<close>

text \<open>
  Claim C8. \<open>generateAndSendOTP\<close> and \<open>forgotPassword\<close> delete the earlier codes
  before they store the new one; \<open>resendOTP\<close> only inserts. After it the earlier
  reset code \<^verbatim>\<open>482913\<close> is still stored, unused and unexpired, beside the new code
  \<^verbatim>\<open>771204\<close>. The new code validates; after the password reset that follows (which
  deletes the used code) the earlier code validates as well: two codes of one user and
  purpose have been accepted.
\<close>

theorem resendOTP_keeps_previous_code:
  "map (\<lambda>d. (o_code d, o_type d, o_is_used d, o_expired_at d)) (otps sample_resent_state)
     = [(encryptOTP sample_crypto sample_env ''482913'', PasswordReset, False, 900000),
        (encryptOTP sample_crypto sample_env ''771204'', PasswordReset, False, 960000)]
   \<and> fst (verifyPasswordResetOTP sample_crypto sample_env sample_resent_state
            ''771204'' ''p@x.io'' 120000) = Inr (sample_userId, ''p@x.io'')
   \<and> fst (resetPassword sample_crypto sample_env sample_resent_verified_state
            ''p@x.io'' ''New-pass2'') = Inr True
   \<and> fst (verifyPasswordResetOTP sample_crypto sample_env sample_resent_reset_state
            ''482913'' ''p@x.io'' 180000) = Inr (sample_userId, ''p@x.io'')"
proof -
  have a: "map (\<lambda>d. (o_code d, o_type d, o_is_used d, o_expired_at d)) (otps sample_resent_state)
     = [(encryptOTP sample_crypto sample_env ''482913'', PasswordReset, False, 900000),
        (encryptOTP sample_crypto sample_env ''771204'', PasswordReset, False, 960000)]"
    by (simp add: sample_resent_state_eq sample_reset_otp_def)
  have b: "fst (verifyPasswordResetOTP sample_crypto sample_env sample_resent_state
            ''771204'' ''p@x.io'' 120000) = Inr (sample_userId, ''p@x.io'')"
    by (simp add: sample_resent_state_eq verifyPasswordResetOTP_def
      normalize_sample_email Let_def findOne_def findOne_sorted_desc_def otp_verifyOTP_def
      encryptOTP_def sample_defs)
  have c: "fst (resetPassword sample_crypto sample_env sample_resent_verified_state
            ''p@x.io'' ''New-pass2'') = Inr True"
    by (simp add: sample_resent_verified_state_eq resetPassword_def
      Let_def findOne_def comparePassword_def hashPassword_def initialHashPassword_def
      invalidateAllUserRefreshTokens_def sample_userId_parses sample_defs)
  have d: "fst (verifyPasswordResetOTP sample_crypto sample_env sample_resent_reset_state
            ''482913'' ''p@x.io'' 180000) = Inr (sample_userId, ''p@x.io'')"
    by (simp add: sample_resent_reset_state_eq verifyPasswordResetOTP_def
      normalize_sample_email Let_def findOne_def findOne_sorted_desc_def otp_verifyOTP_def
      encryptOTP_def sample_defs)
  from a b c d show ?thesis by simp
qed

section \<open>Password reset\<close>

text \<open>
  Claim C9. A successful \<open>resetPassword\<close> marks every refresh row of the user removed,
  but its \<^verbatim>\<open>deleteMany\<close> filters on \<^verbatim>\<open>is_used: true\<close>: the outstanding (unused,
  unexpired) reset code of the user stays in the collection and is accepted by
  \<open>verifyPasswordResetOTP\<close> after the reset.
\<close>

theorem resetPassword_keeps_outstanding_code:
  "fst (resetPassword sample_crypto sample_env sample_reset_state ''p@x.io'' ''New-pass2'') = Inr True
   \<and> map t_is_removed
         (tokens (snd (resetPassword sample_crypto sample_env sample_reset_state ''p@x.io'' ''New-pass2'')))
       = [True]
   \<and> otps (snd (resetPassword sample_crypto sample_env sample_reset_state ''p@x.io'' ''New-pass2''))
       = [sample_reset_otp]
   \<and> o_type sample_reset_otp = PasswordReset \<and> o_is_used sample_reset_otp = False
   \<and> fst (verifyPasswordResetOTP sample_crypto sample_env
            (snd (resetPassword sample_crypto sample_env sample_reset_state ''p@x.io'' ''New-pass2''))
            ''482913'' ''p@x.io'' 300000) = Inr (sample_userId, ''p@x.io'')"
  by (simp add: resetPassword_def verifyPasswordResetOTP_def normalize_sample_email
      Let_def findOne_def findOne_sorted_desc_def otp_verifyOTP_def
      comparePassword_def hashPassword_def initialHashPassword_def
      invalidateAllUserRefreshTokens_def sample_userId_parses deleteMany_def updateMany_def
      encryptOTP_def sample_defs)

section \<open>What generateAndSendOTP deletes\<close>

text \<open>
  Claim C10. \<open>generateAndSendOTP\<close> deletes every stored code of the user, whatever its
  purpose, and then stores the new one: afterwards the only code of the user in the
  collection is the new one, and the codes of other users are as they were.
\<close>

theorem generateAndSendOTP_deletes_every_purpose:
  assumes "new_ObjectId userId = Some uid"
  shows "generateAndSendOTP C e s userId email type plainOtp now newId =
     (Inr (), s\<lparr>otps := filter (\<lambda>d. o_user_id d \<noteq> uid) (otps s) @
        [\<lparr>o_id = newId, o_user_id = uid, o_code = encryptOTP C e plainOtp,
          o_expired_at = now + 15 * 60 * 1000, o_created_at = now, o_type = type,
          o_is_used = False\<rparr>]\<rparr>)
   \<and> filter (\<lambda>d. o_user_id d = uid)
        (otps (snd (generateAndSendOTP C e s userId email type plainOtp now newId))) =
        [\<lparr>o_id = newId, o_user_id = uid, o_code = encryptOTP C e plainOtp,
          o_expired_at = now + 15 * 60 * 1000, o_created_at = now, o_type = type,
          o_is_used = False\<rparr>]"
  using assms
  by (simp add: generateAndSendOTP_def Let_def deleteMany_def insertOne_def createOTPExpiration_def)

theorem generateAndSendOTP_deletes_every_purpose_witness:
  "new_ObjectId sample_userId = Some (ObjectId sample_userId)
   \<and> map o_type (otps sample_reset_state) = [PasswordReset]
   \<and> otps (snd (generateAndSendOTP sample_crypto sample_env sample_reset_state sample_userId
                   ''p@x.io'' EmailVerification ''135790'' 60000 (ObjectId ''64b7f0c2a1d3e4f5a6b7c822'')))
      = [\<lparr>o_id = ObjectId ''64b7f0c2a1d3e4f5a6b7c822'', o_user_id = ObjectId sample_userId,
          o_code = encryptOTP sample_crypto sample_env ''135790'',
          o_expired_at = 960000, o_created_at = 60000, o_type = EmailVerification,
          o_is_used = False\<rparr>]"
  using generateAndSendOTP_deletes_every_purpose [OF sample_userId_parses,
      of sample_crypto sample_env sample_reset_state "''p@x.io''" EmailVerification "''135790''" 60000
         "ObjectId ''64b7f0c2a1d3e4f5a6b7c822''"]
  by (simp add: sample_userId_parses sample_reset_state_def sample_reset_otp_def)

end
